theory Spec2Isabelle
  imports Complex_Main "HOL-Library.Monad_Syntax"
begin

section \<open>Numbers, errors and tuning constants\<close>

text \<open>
  JavaScript numbers are modelled as real numbers. A division whose divisor is zero
  yields \<open>Infinity\<close> or \<open>NaN\<close> in the source, which no real number stands for:
  every \<open>1.0 / d\<close> of the source goes through \<open>recip\<close>, whose value at zero is
  \<open>None\<close>, so that a function of the model returns \<open>Some\<close> only when each of its
  divisions had a non-zero divisor.
\<close>

definition recip :: "real \<Rightarrow> real option" where
  "recip d = (if d = 0 then None else Some (1 / d))"

text \<open>
  \<open>common.assert(statement)\<close> of \<open>util/common.ts\<close>: nothing when the build switch
  \<open>ASSERT\<close> is off, nothing when the statement holds, otherwise an \<open>Error\<close> is thrown.
  Reading a property of \<open>undefined\<close> throws a \<open>TypeError\<close>. An \<open>undefined\<close>
  stored where the solver expects a number throws nothing, but no real number stands
  for it: the model stops there with \<open>NotANumber\<close>.
\<close>

datatype error = AssertionError | TypeError | NotANumber

definition assert :: "bool \<Rightarrow> bool \<Rightarrow> error + unit" where
  "assert ASSERT statement =
     (if \<not> ASSERT then Inr ()
      else if statement then Inr ()
      else Inl AssertionError)"

text \<open>
  Modelled from the spec: \<open>Settings.ts\<close> is missing; the tuning constants the solver
  reads are the fields of one configuration value that every call receives
  (declared in \<open>lib/index.d.ts\<close> as numbers). \<open>EPSILON\<close> is \<open>Math.EPSILON\<close> of
  the missing \<open>common/Math.ts\<close>.
\<close>

record Settings =
  linearSlop :: real
  angularSlop :: real
  maxLinearCorrection :: real
  maxAngularCorrection :: real
  EPSILON :: real

text \<open>
  Modelled from the spec: \<open>Math.clamp\<close> and \<open>Math.abs\<close> of the missing
  \<open>common/Math.ts\<close>.
\<close>

definition Math_clamp :: "real \<Rightarrow> real \<Rightarrow> real \<Rightarrow> real" where
  "Math_clamp num lo hi = (if num < lo then lo else if num > hi then hi else num)"

definition Math_abs :: "real \<Rightarrow> real" where
  "Math_abs a = \<bar>a\<bar>"

section \<open>Math primitives\<close>

text \<open>
  Modelled from the spec: the vector, rotation, matrix and transform classes of
  \<open>common/\<close> are missing (the spec takes them as available). A method that mutates
  its receiver returns the new value here. The fields \<open>x\<close>, \<open>y\<close>, \<open>z\<close> are the
  selectors \<open>Vec2_x\<close>, \<open>Vec2_y\<close>, \<open>Vec3_x\<close>, \<open>Vec3_y\<close>, \<open>Vec3_z\<close>.
\<close>

datatype Vec2 = Vec2 (Vec2_x: real) (Vec2_y: real)

datatype Vec3 = Vec3 (Vec3_x: real) (Vec3_y: real) (Vec3_z: real)

definition Vec2_zero :: Vec2 where
  "Vec2_zero = Vec2 0 0"

definition Vec2_add :: "Vec2 \<Rightarrow> Vec2 \<Rightarrow> Vec2" where
  "Vec2_add v w = Vec2 (Vec2_x v + Vec2_x w) (Vec2_y v + Vec2_y w)"

definition Vec2_sub :: "Vec2 \<Rightarrow> Vec2 \<Rightarrow> Vec2" where
  "Vec2_sub v w = Vec2 (Vec2_x v - Vec2_x w) (Vec2_y v - Vec2_y w)"

definition Vec2_mul :: "real \<Rightarrow> Vec2 \<Rightarrow> Vec2" where
  "Vec2_mul a v = Vec2 (a * Vec2_x v) (a * Vec2_y v)"

definition Vec2_neg :: "Vec2 \<Rightarrow> Vec2" where
  "Vec2_neg v = Vec2 (- Vec2_x v) (- Vec2_y v)"

definition Vec2_dot :: "Vec2 \<Rightarrow> Vec2 \<Rightarrow> real" where
  "Vec2_dot v w = Vec2_x v * Vec2_x w + Vec2_y v * Vec2_y w"

text \<open>\<open>Vec2.cross\<close> on two vectors, and on a number and a vector.\<close>

definition Vec2_cross :: "Vec2 \<Rightarrow> Vec2 \<Rightarrow> real" where
  "Vec2_cross v w = Vec2_x v * Vec2_y w - Vec2_y v * Vec2_x w"

definition Vec2_crossNumVec :: "real \<Rightarrow> Vec2 \<Rightarrow> Vec2" where
  "Vec2_crossNumVec s v = Vec2 (- s * Vec2_y v) (s * Vec2_x v)"

definition Vec2_lengthSquared :: "Vec2 \<Rightarrow> real" where
  "Vec2_lengthSquared v = Vec2_x v * Vec2_x v + Vec2_y v * Vec2_y v"

definition Vec2_length :: "Vec2 \<Rightarrow> real" where
  "Vec2_length v = sqrt (Vec2_x v * Vec2_x v + Vec2_y v * Vec2_y v)"

definition Vec2_distanceSquared :: "Vec2 \<Rightarrow> Vec2 \<Rightarrow> real" where
  "Vec2_distanceSquared v w =
     (let dx = Vec2_x v - Vec2_x w; dy = Vec2_y v - Vec2_y w in dx * dx + dy * dy)"

definition Vec2_distance :: "Vec2 \<Rightarrow> Vec2 \<Rightarrow> real" where
  "Vec2_distance v w =
     (let dx = Vec2_x v - Vec2_x w; dy = Vec2_y v - Vec2_y w in sqrt (dx * dx + dy * dy))"

text \<open>\<open>Vec2.combine(a, v, b, w)\<close> is \<open>a v + b w\<close>; \<open>addCombine\<close> and \<open>subCombine\<close>
  add it to, and subtract it from, the receiver; \<open>addMul\<close> and \<open>subMul\<close> do so with
  one scaled vector.\<close>

definition Vec2_combine :: "real \<Rightarrow> Vec2 \<Rightarrow> real \<Rightarrow> Vec2 \<Rightarrow> Vec2" where
  "Vec2_combine a v b w =
     Vec2 (a * Vec2_x v + b * Vec2_x w) (a * Vec2_y v + b * Vec2_y w)"

definition Vec2_addCombine :: "Vec2 \<Rightarrow> real \<Rightarrow> Vec2 \<Rightarrow> real \<Rightarrow> Vec2 \<Rightarrow> Vec2" where
  "Vec2_addCombine this a v b w =
     Vec2 (Vec2_x this + (a * Vec2_x v + b * Vec2_x w))
          (Vec2_y this + (a * Vec2_y v + b * Vec2_y w))"

definition Vec2_subCombine :: "Vec2 \<Rightarrow> real \<Rightarrow> Vec2 \<Rightarrow> real \<Rightarrow> Vec2 \<Rightarrow> Vec2" where
  "Vec2_subCombine this a v b w =
     Vec2 (Vec2_x this - (a * Vec2_x v + b * Vec2_x w))
          (Vec2_y this - (a * Vec2_y v + b * Vec2_y w))"

definition Vec2_addMul :: "Vec2 \<Rightarrow> real \<Rightarrow> Vec2 \<Rightarrow> Vec2" where
  "Vec2_addMul this a v = Vec2 (Vec2_x this + a * Vec2_x v) (Vec2_y this + a * Vec2_y v)"

definition Vec2_subMul :: "Vec2 \<Rightarrow> real \<Rightarrow> Vec2 \<Rightarrow> Vec2" where
  "Vec2_subMul this a v = Vec2 (Vec2_x this - a * Vec2_x v) (Vec2_y this - a * Vec2_y v)"

text \<open>
  \<open>v.normalize()\<close> scales the receiver to unit length and returns the former length;
  below \<open>EPSILON\<close> it returns 0 and leaves the vector as it is. The result is the
  pair of the returned length and the receiver afterwards.
\<close>

definition Vec2_normalize :: "Settings \<Rightarrow> Vec2 \<Rightarrow> (real \<times> Vec2) option" where
  "Vec2_normalize st v =
     (let length = Vec2_length v in
      if length < EPSILON st then Some (0, v)
      else do {
        invLength \<leftarrow> recip length;
        Some (length, Vec2 (Vec2_x v * invLength) (Vec2_y v * invLength))
      })"

definition Vec3_zero :: Vec3 where
  "Vec3_zero = Vec3 0 0 0"

definition Vec3_add :: "Vec3 \<Rightarrow> Vec3 \<Rightarrow> Vec3" where
  "Vec3_add v w = Vec3 (Vec3_x v + Vec3_x w) (Vec3_y v + Vec3_y w) (Vec3_z v + Vec3_z w)"

definition Vec3_mul :: "Vec3 \<Rightarrow> real \<Rightarrow> Vec3" where
  "Vec3_mul v m = Vec3 (Vec3_x v * m) (Vec3_y v * m) (Vec3_z v * m)"

definition Vec3_neg :: "Vec3 \<Rightarrow> Vec3" where
  "Vec3_neg v = Vec3 (- Vec3_x v) (- Vec3_y v) (- Vec3_z v)"

definition Vec3_dot :: "Vec3 \<Rightarrow> Vec3 \<Rightarrow> real" where
  "Vec3_dot v w = Vec3_x v * Vec3_x w + Vec3_y v * Vec3_y w + Vec3_z v * Vec3_z w"

definition Vec3_cross :: "Vec3 \<Rightarrow> Vec3 \<Rightarrow> Vec3" where
  "Vec3_cross v w =
     Vec3 (Vec3_y v * Vec3_z w - Vec3_z v * Vec3_y w)
          (Vec3_z v * Vec3_x w - Vec3_x v * Vec3_z w)
          (Vec3_x v * Vec3_y w - Vec3_y v * Vec3_x w)"

text \<open>A rotation holds the sine and the cosine of its angle.\<close>

datatype Rot = Rot (Rot_s: real) (Rot_c: real)

definition Rot_neo :: "real \<Rightarrow> Rot" where
  "Rot_neo angle = Rot (sin angle) (cos angle)"

definition Rot_mulVec2 :: "Rot \<Rightarrow> Vec2 \<Rightarrow> Vec2" where
  "Rot_mulVec2 q v =
     Vec2 (Rot_c q * Vec2_x v - Rot_s q * Vec2_y v) (Rot_s q * Vec2_x v + Rot_c q * Vec2_y v)"

definition Rot_mulTVec2 :: "Rot \<Rightarrow> Vec2 \<Rightarrow> Vec2" where
  "Rot_mulTVec2 q v =
     Vec2 (Rot_c q * Vec2_x v + Rot_s q * Vec2_y v) (- Rot_s q * Vec2_x v + Rot_c q * Vec2_y v)"

text \<open>\<open>Rot.mulSub(q, v, w)\<close> rotates \<open>v - w\<close>.\<close>

definition Rot_mulSub :: "Rot \<Rightarrow> Vec2 \<Rightarrow> Vec2 \<Rightarrow> Vec2" where
  "Rot_mulSub q v w =
     (let dx = Vec2_x v - Vec2_x w; dy = Vec2_y v - Vec2_y w in
      Vec2 (Rot_c q * dx - Rot_s q * dy) (Rot_s q * dx + Rot_c q * dy))"

datatype Transform = Transform (Transform_p: Vec2) (Transform_q: Rot)

definition Transform_mulVec2 :: "Transform \<Rightarrow> Vec2 \<Rightarrow> Vec2" where
  "Transform_mulVec2 xf v =
     Vec2 (Rot_c (Transform_q xf) * Vec2_x v - Rot_s (Transform_q xf) * Vec2_y v
             + Vec2_x (Transform_p xf))
          (Rot_s (Transform_q xf) * Vec2_x v + Rot_c (Transform_q xf) * Vec2_y v
             + Vec2_y (Transform_p xf))"

definition Transform_mulTVec2 :: "Transform \<Rightarrow> Vec2 \<Rightarrow> Vec2" where
  "Transform_mulTVec2 xf v =
     (let px = Vec2_x v - Vec2_x (Transform_p xf);
          py = Vec2_y v - Vec2_y (Transform_p xf) in
      Vec2 (Rot_c (Transform_q xf) * px + Rot_s (Transform_q xf) * py)
           (- Rot_s (Transform_q xf) * px + Rot_c (Transform_q xf) * py))"


datatype Mat33 = Mat33 (Mat33_ex: Vec3) (Mat33_ey: Vec3) (Mat33_ez: Vec3)


definition Mat33_solve22 :: "Mat33 \<Rightarrow> Vec2 \<Rightarrow> Vec2 option" where
  "Mat33_solve22 m v =
     (let a11 = Vec3_x (Mat33_ex m); a12 = Vec3_x (Mat33_ey m);
          a21 = Vec3_y (Mat33_ex m); a22 = Vec3_y (Mat33_ey m);
          det0 = a11 * a22 - a12 * a21 in
      do {
        det \<leftarrow> (if det0 \<noteq> 0 then recip det0 else Some det0);
        Some (Vec2 (det * (a22 * Vec2_x v - a12 * Vec2_y v))
                   (det * (a11 * Vec2_y v - a21 * Vec2_x v)))
      })"

definition Mat33_solve33 :: "Mat33 \<Rightarrow> Vec3 \<Rightarrow> Vec3 option" where
  "Mat33_solve33 m v =
     (let det0 = Vec3_dot (Mat33_ex m) (Vec3_cross (Mat33_ey m) (Mat33_ez m)) in
      do {
        det \<leftarrow> (if det0 \<noteq> 0 then recip det0 else Some det0);
        Some (Vec3 (det * Vec3_dot v (Vec3_cross (Mat33_ey m) (Mat33_ez m)))
                   (det * Vec3_dot (Mat33_ex m) (Vec3_cross v (Mat33_ez m)))
                   (det * Vec3_dot (Mat33_ex m) (Vec3_cross (Mat33_ey m) v)))
      })"

section \<open>Narrow phase: two circles\<close>

text \<open>
  Modelled from the spec: the classes \<open>CircleShape\<close>, \<open>Manifold\<close>, \<open>ManifoldPoint\<close>
  and \<open>ContactID\<close> are missing; their fields are those that \<open>CollideCircles\<close> reads
  and writes (\<open>docs/api/classes/manifold.md\<close> lists the manifold's). The fields
  \<open>type\<close> and \<open>id\<close> are named \<open>mtype\<close> and \<open>cid\<close>.
\<close>

datatype ManifoldType = e_circles | e_faceA | e_faceB

datatype ContactFeatureType = e_vertex | e_face

record ContactFeature =
  indexA :: nat
  indexB :: nat
  typeA :: ContactFeatureType
  typeB :: ContactFeatureType

record ManifoldPoint =
  localPoint :: Vec2
  normalImpulse :: real
  tangentImpulse :: real
  cid :: ContactFeature

record Manifold =
  mtype :: ManifoldType
  localNormal :: Vec2
  localPoint :: Vec2
  points :: "ManifoldPoint list"
  pointCount :: nat

record CircleShape =
  m_p :: Vec2
  m_radius :: real

text \<open>
  \<open>CollideCircles\<close> (\<open>collision/shape/CollideCircle\<close>). The manifold is mutated in
  place; the model returns it. \<open>manifold.points[0]\<close> of an empty array is
  \<open>undefined\<close>, and the write to its \<open>localPoint\<close> throws.
\<close>

definition CollideCircles ::
  "Manifold \<Rightarrow> CircleShape \<Rightarrow> Transform \<Rightarrow> CircleShape \<Rightarrow> Transform \<Rightarrow> error + Manifold" where
  "CollideCircles manifold circleA xfA circleB xfB =
     (let manifold = manifold\<lparr>pointCount := 0\<rparr>;
          pA = Transform_mulVec2 xfA (m_p circleA);
          pB = Transform_mulVec2 xfB (m_p circleB);
          distSqr = Vec2_distanceSquared pB pA;
          rA = m_radius circleA;
          rB = m_radius circleB;
          radius = rA + rB in
      if distSqr > radius * radius then Inr manifold
      else
        (case points manifold of
           [] \<Rightarrow> Inl TypeError
         | p0 # ps \<Rightarrow>
             Inr (manifold
               \<lparr>mtype := e_circles,
                localNormal := Vec2_zero,
                Manifold.localPoint := m_p circleA,
                points :=
                  p0\<lparr>ManifoldPoint.localPoint := m_p circleB,
                     cid := (cid p0)\<lparr>indexA := 0, typeA := e_vertex,
                                     indexB := 0, typeB := e_vertex\<rparr>\<rparr> # ps,
                pointCount := 1\<rparr>)))"

section \<open>Bodies and time steps\<close>

text \<open>
  Modelled from the spec: \<open>Body\<close>, \<open>Sweep\<close>, \<open>Position\<close>, \<open>Velocity\<close> and
  \<open>TimeStep\<close> are missing. A body carries its transform, its sweep, its inverse mass
  and inertia, and the solver's working position \<open>c_position\<close> (\<open>c\<close>, \<open>a\<close>) and
  working velocity \<open>c_velocity\<close> (\<open>v\<close>, \<open>w\<close>). A joint refers to two distinct
  bodies; the model passes both to each method and returns them updated.
\<close>

record Sweep =
  localCenter :: Vec2
  sweep_c :: Vec2
  sweep_a :: real

datatype Position = Position (Position_c: Vec2) (Position_a: real)

datatype Velocity = Velocity (Velocity_v: Vec2) (Velocity_w: real)

record Body =
  m_xf :: Transform
  m_sweep :: Sweep
  m_invMass :: real
  m_invI :: real
  m_linearVelocity :: Vec2
  m_angularVelocity :: real
  m_force :: Vec2
  m_torque :: real
  m_awakeFlag :: bool
  m_sleepTime :: real
  c_position :: Position
  c_velocity :: Velocity

record TimeStep =
  dt :: real
  dtRatio :: real
  warmStarting :: bool

definition Body_getWorldPoint :: "Body \<Rightarrow> Vec2 \<Rightarrow> Vec2" where
  "Body_getWorldPoint this lp = Transform_mulVec2 (m_xf this) lp"

definition Body_getLocalPoint :: "Body \<Rightarrow> Vec2 \<Rightarrow> Vec2" where
  "Body_getLocalPoint this wp = Transform_mulTVec2 (m_xf this) wp"

definition Body_getAngle :: "Body \<Rightarrow> real" where
  "Body_getAngle this = sweep_a (m_sweep this)"

definition Body_setAwake :: "Body \<Rightarrow> bool \<Rightarrow> Body" where
  "Body_setAwake this flag =
     (if flag then
        (if m_awakeFlag this = False
         then this\<lparr>m_awakeFlag := True, m_sleepTime := 0\<rparr>
         else this)
      else this\<lparr>m_awakeFlag := False, m_sleepTime := 0,
                m_linearVelocity := Vec2_zero, m_angularVelocity := 0,
                m_force := Vec2_zero, m_torque := 0\<rparr>)"

section \<open>Distance joint\<close>

text \<open>
  \<open>dynamics/joint/DistanceJoint.ts\<close>. An absent field of the definition is
  \<open>None\<close>, as is a number that \<open>Math.isFinite\<close> rejects; \<open>options(def, DEFAULTS)\<close>
  gives an absent \<open>frequencyHz\<close> and \<open>dampingRatio\<close> the value 0; the field
  \<open>length\<close> of the definition is named \<open>def_length\<close>. The solver's
  temporaries are not assigned by the constructor; the model holds zero there until
  \<open>initVelocityConstraints\<close> writes them.
\<close>

record DistanceJointDef =
  frequencyHz :: "real option"
  dampingRatio :: "real option"
  def_length :: "real option"
  localAnchorA :: "Vec2 option"
  localAnchorB :: "Vec2 option"

record DistanceJoint =
  m_localAnchorA :: Vec2
  m_localAnchorB :: Vec2
  m_length :: real
  m_frequencyHz :: real
  m_dampingRatio :: real
  m_impulse :: real
  m_gamma :: real
  m_bias :: real
  m_u :: Vec2
  m_rA :: Vec2
  m_rB :: Vec2
  m_localCenterA :: Vec2
  m_localCenterB :: Vec2
  m_invMassA :: real
  m_invMassB :: real
  m_invIA :: real
  m_invIB :: real
  m_mass :: real

definition DistanceJoint_new ::
  "DistanceJointDef \<Rightarrow> Body \<Rightarrow> Body \<Rightarrow> Vec2 option \<Rightarrow> Vec2 option \<Rightarrow> DistanceJoint" where
  "DistanceJoint_new def bodyA bodyB anchorA anchorB =
     (let localAnchorA' =
            (case anchorA of
               Some a \<Rightarrow> Body_getLocalPoint bodyA a
             | None \<Rightarrow> (case DistanceJointDef.localAnchorA def of
                          Some l \<Rightarrow> l | None \<Rightarrow> Vec2_zero));
          localAnchorB' =
            (case anchorB of
               Some b \<Rightarrow> Body_getLocalPoint bodyB b
             | None \<Rightarrow> (case DistanceJointDef.localAnchorB def of
                          Some l \<Rightarrow> l | None \<Rightarrow> Vec2_zero)) in
      \<lparr>DistanceJoint.m_localAnchorA = localAnchorA',
       DistanceJoint.m_localAnchorB = localAnchorB',
       DistanceJoint.m_length =
         (case def_length def of
            Some l \<Rightarrow> l
          | None \<Rightarrow> Vec2_distance (Body_getWorldPoint bodyA localAnchorA')
                                  (Body_getWorldPoint bodyB localAnchorB')),
       DistanceJoint.m_frequencyHz =
         (case frequencyHz def of Some f \<Rightarrow> f | None \<Rightarrow> 0),
       DistanceJoint.m_dampingRatio =
         (case dampingRatio def of Some d \<Rightarrow> d | None \<Rightarrow> 0),
       DistanceJoint.m_impulse = 0,
       DistanceJoint.m_gamma = 0,
       DistanceJoint.m_bias = 0,
       DistanceJoint.m_u = Vec2_zero,
       DistanceJoint.m_rA = Vec2_zero,
       DistanceJoint.m_rB = Vec2_zero,
       DistanceJoint.m_localCenterA = Vec2_zero,
       DistanceJoint.m_localCenterB = Vec2_zero,
       DistanceJoint.m_invMassA = 0,
       DistanceJoint.m_invMassB = 0,
       DistanceJoint.m_invIA = 0,
       DistanceJoint.m_invIB = 0,
       DistanceJoint.m_mass = 0\<rparr>)"

definition DistanceJoint_getLength :: "DistanceJoint \<Rightarrow> real" where
  "DistanceJoint_getLength this = DistanceJoint.m_length this"

definition DistanceJoint_getAnchorA :: "DistanceJoint \<Rightarrow> Body \<Rightarrow> Vec2" where
  "DistanceJoint_getAnchorA this bodyA =
     Body_getWorldPoint bodyA (DistanceJoint.m_localAnchorA this)"

definition DistanceJoint_getAnchorB :: "DistanceJoint \<Rightarrow> Body \<Rightarrow> Vec2" where
  "DistanceJoint_getAnchorB this bodyB =
     Body_getWorldPoint bodyB (DistanceJoint.m_localAnchorB this)"

text \<open>
  \<open>initVelocityConstraints\<close> has three blocks, each a definition of its own: the
  temporaries with the unit axis \<open>m_u\<close> (zero at the singularity), which also yields
  the length of the axis; the effective mass with the soft-constraint coefficients;
  and the warm start, on the working velocities \<open>vA\<close>, \<open>wA\<close>, \<open>vB\<close>, \<open>wB\<close> the
  method holds in local variables. The result is the joint and the two bodies
  afterwards.
\<close>

definition DistanceJoint_effectiveMass ::
  "TimeStep \<Rightarrow> DistanceJoint \<Rightarrow> real \<Rightarrow> DistanceJoint option" where
  "DistanceJoint_effectiveMass step this length' = do {
     let crAu = Vec2_cross (DistanceJoint.m_rA this) (DistanceJoint.m_u this);
     let crBu = Vec2_cross (DistanceJoint.m_rB this) (DistanceJoint.m_u this);
     let invMass = DistanceJoint.m_invMassA this + DistanceJoint.m_invIA this * crAu * crAu
                     + DistanceJoint.m_invMassB this
                     + DistanceJoint.m_invIB this * crBu * crBu;
     mass \<leftarrow> (if invMass \<noteq> 0 then recip invMass else Some 0);
     let this = this\<lparr>DistanceJoint.m_mass := mass\<rparr>;
     (if DistanceJoint.m_frequencyHz this > 0 then do {
        let C = length' - DistanceJoint.m_length this;
        let omega = 2 * pi * DistanceJoint.m_frequencyHz this;
        let d = 2 * DistanceJoint.m_mass this * DistanceJoint.m_dampingRatio this * omega;
        let k = DistanceJoint.m_mass this * omega * omega;
        let h = dt step;
        let gamma = h * (d + h * k);
        gamma \<leftarrow> (if gamma \<noteq> 0 then recip gamma else Some 0);
        let this = this\<lparr>DistanceJoint.m_gamma := gamma\<rparr>;
        let this = this\<lparr>DistanceJoint.m_bias := C * h * k * DistanceJoint.m_gamma this\<rparr>;
        let invMass = invMass + DistanceJoint.m_gamma this;
        mass \<leftarrow> (if invMass \<noteq> 0 then recip invMass else Some 0);
        Some (this\<lparr>DistanceJoint.m_mass := mass\<rparr>)
      } else
        Some (this\<lparr>DistanceJoint.m_gamma := 0, DistanceJoint.m_bias := 0\<rparr>))
   }"

definition DistanceJoint_warmStart ::
  "TimeStep \<Rightarrow> DistanceJoint \<Rightarrow> Vec2 \<Rightarrow> real \<Rightarrow> Vec2 \<Rightarrow> real
     \<Rightarrow> DistanceJoint \<times> Vec2 \<times> real \<times> Vec2 \<times> real" where
  "DistanceJoint_warmStart step this vA wA vB wB =
     (if warmStarting step then
        (let this = this\<lparr>DistanceJoint.m_impulse := DistanceJoint.m_impulse this * dtRatio step\<rparr>;
             P = Vec2_mul (DistanceJoint.m_impulse this) (DistanceJoint.m_u this);
             vA = Vec2_subMul vA (DistanceJoint.m_invMassA this) P;
             wA = wA - DistanceJoint.m_invIA this * Vec2_cross (DistanceJoint.m_rA this) P;
             vB = Vec2_addMul vB (DistanceJoint.m_invMassB this) P;
             wB = wB + DistanceJoint.m_invIB this * Vec2_cross (DistanceJoint.m_rB this) P
         in (this, vA, wA, vB, wB))
      else
        (let this = this\<lparr>DistanceJoint.m_impulse := 0\<rparr>
         in (this, vA, wA, vB, wB)))"

definition DistanceJoint_initAxis ::
  "Settings \<Rightarrow> DistanceJoint \<Rightarrow> Body \<Rightarrow> Body \<Rightarrow> (DistanceJoint \<times> real) option" where
  "DistanceJoint_initAxis st this bodyA bodyB = do {
     let this = this\<lparr>DistanceJoint.m_localCenterA := localCenter (m_sweep bodyA),
                      DistanceJoint.m_localCenterB := localCenter (m_sweep bodyB),
                      DistanceJoint.m_invMassA := m_invMass bodyA,
                      DistanceJoint.m_invMassB := m_invMass bodyB,
                      DistanceJoint.m_invIA := m_invI bodyA,
                      DistanceJoint.m_invIB := m_invI bodyB\<rparr>;
     let cA = Position_c (c_position bodyA);
     let aA = Position_a (c_position bodyA);
     let cB = Position_c (c_position bodyB);
     let aB = Position_a (c_position bodyB);
     let qA = Rot_neo aA;
     let qB = Rot_neo aB;
     let this = this\<lparr>DistanceJoint.m_rA :=
                        Rot_mulVec2 qA (Vec2_sub (DistanceJoint.m_localAnchorA this)
                                                 (DistanceJoint.m_localCenterA this)),
                      DistanceJoint.m_rB :=
                        Rot_mulVec2 qB (Vec2_sub (DistanceJoint.m_localAnchorB this)
                                                 (DistanceJoint.m_localCenterB this))\<rparr>;
     let u = Vec2_sub (Vec2_add cB (DistanceJoint.m_rB this))
                      (Vec2_add cA (DistanceJoint.m_rA this));
     let length = Vec2_length u;
     u \<leftarrow> (if length > linearSlop st
           then do { inv \<leftarrow> recip length; Some (Vec2_mul inv u) }
           else Some (Vec2 0 0));
     Some (this\<lparr>DistanceJoint.m_u := u\<rparr>, length)
   }"

definition DistanceJoint_initVelocityConstraints ::
  "Settings \<Rightarrow> TimeStep \<Rightarrow> DistanceJoint \<Rightarrow> Body \<Rightarrow> Body
     \<Rightarrow> (DistanceJoint \<times> Body \<times> Body) option" where
  "DistanceJoint_initVelocityConstraints st step this bodyA bodyB = do {
     let vA = Velocity_v (c_velocity bodyA);
     let wA = Velocity_w (c_velocity bodyA);
     let vB = Velocity_v (c_velocity bodyB);
     let wB = Velocity_w (c_velocity bodyB);
     (this, length) \<leftarrow> DistanceJoint_initAxis st this bodyA bodyB;
     this \<leftarrow> DistanceJoint_effectiveMass step this length;
     let (this, vA, wA, vB, wB) = DistanceJoint_warmStart step this vA wA vB wB;
     Some (this, bodyA\<lparr>c_velocity := Velocity vA wA\<rparr>,
                 bodyB\<lparr>c_velocity := Velocity vB wB\<rparr>)
   }"

text \<open>
  \<open>solvePositionConstraints\<close> returns whether the position error is within
  tolerance; the result is that flag with the joint and the two bodies afterwards.
\<close>

definition DistanceJoint_solvePositionConstraints ::
  "Settings \<Rightarrow> TimeStep \<Rightarrow> DistanceJoint \<Rightarrow> Body \<Rightarrow> Body
     \<Rightarrow> (bool \<times> DistanceJoint \<times> Body \<times> Body) option" where
  "DistanceJoint_solvePositionConstraints st step this bodyA bodyB =
     (if DistanceJoint.m_frequencyHz this > 0 then Some (True, this, bodyA, bodyB)
      else do {
        let cA = Position_c (c_position bodyA);
        let aA = Position_a (c_position bodyA);
        let cB = Position_c (c_position bodyB);
        let aB = Position_a (c_position bodyB);
        let qA = Rot_neo aA;
        let qB = Rot_neo aB;
        let rA = Rot_mulSub qA (DistanceJoint.m_localAnchorA this)
                               (DistanceJoint.m_localCenterA this);
        let rB = Rot_mulSub qB (DistanceJoint.m_localAnchorB this)
                               (DistanceJoint.m_localCenterB this);
        let u = Vec2_sub (Vec2_add cB rB) (Vec2_add cA rA);
        (length, u) \<leftarrow> Vec2_normalize st u;
        let C = length - DistanceJoint.m_length this;
        let C = Math_clamp C (- maxLinearCorrection st) (maxLinearCorrection st);
        let impulse = - DistanceJoint.m_mass this * C;
        let P = Vec2_mul impulse u;
        let cA = Vec2_subMul cA (DistanceJoint.m_invMassA this) P;
        let aA = aA - DistanceJoint.m_invIA this * Vec2_cross rA P;
        let cB = Vec2_addMul cB (DistanceJoint.m_invMassB this) P;
        let aB = aB + DistanceJoint.m_invIB this * Vec2_cross rB P;
        Some (Math_abs C < linearSlop st, this,
              bodyA\<lparr>c_position := Position cA aA\<rparr>,
              bodyB\<lparr>c_position := Position cB aB\<rparr>)
      })"

section \<open>Revolute joint\<close>

text \<open>
  \<open>dynamics/joint/RevoluteJoint.ts\<close>. The limit state is one of the four constants
  \<open>inactiveLimit = 0\<close>, \<open>atLowerLimit = 1\<close>, \<open>atUpperLimit = 2\<close>, \<open>equalLimits = 3\<close>.
\<close>

datatype LimitState = inactiveLimit | atLowerLimit | atUpperLimit | equalLimits

record RevoluteJoint =
  m_localAnchorA :: Vec2
  m_localAnchorB :: Vec2
  m_referenceAngle :: real
  m_impulse :: Vec3
  m_motorImpulse :: real
  m_lowerAngle :: real
  m_upperAngle :: real
  m_maxMotorTorque :: real
  m_motorSpeed :: real
  m_enableLimit :: bool
  m_enableMotor :: bool
  m_rA :: Vec2
  m_rB :: Vec2
  m_localCenterA :: Vec2
  m_localCenterB :: Vec2
  m_invMassA :: real
  m_invMassB :: real
  m_invIA :: real
  m_invIB :: real
  m_mass :: Mat33
  m_motorMass :: real
  m_limitState :: LimitState

text \<open>The assignment \<open>this.m_impulse.z = v\<close>.\<close>

definition set_m_impulse_z :: "RevoluteJoint \<Rightarrow> real \<Rightarrow> RevoluteJoint" where
  "set_m_impulse_z this v =
     this\<lparr>RevoluteJoint.m_impulse :=
            Vec3 (Vec3_x (RevoluteJoint.m_impulse this)) (Vec3_y (RevoluteJoint.m_impulse this)) v\<rparr>"

definition RevoluteJoint_enableLimit ::
  "RevoluteJoint \<Rightarrow> Body \<Rightarrow> Body \<Rightarrow> bool \<Rightarrow> RevoluteJoint \<times> Body \<times> Body" where
  "RevoluteJoint_enableLimit this bodyA bodyB flag =
     (if flag \<noteq> m_enableLimit this then
        (let bodyA = Body_setAwake bodyA True;
             bodyB = Body_setAwake bodyB True;
             this = this\<lparr>m_enableLimit := flag\<rparr>;
             this = set_m_impulse_z this 0
         in (this, bodyA, bodyB))
      else (this, bodyA, bodyB))"

definition RevoluteJoint_setLimits ::
  "bool \<Rightarrow> RevoluteJoint \<Rightarrow> Body \<Rightarrow> Body \<Rightarrow> real \<Rightarrow> real
     \<Rightarrow> error + (RevoluteJoint \<times> Body \<times> Body)" where
  "RevoluteJoint_setLimits ASSERT this bodyA bodyB lower upper =
     (case assert ASSERT (lower \<le> upper) of
        Inl e \<Rightarrow> Inl e
      | Inr _ \<Rightarrow>
          (if lower \<noteq> m_lowerAngle this \<or> upper \<noteq> m_upperAngle this then
             (let bodyA = Body_setAwake bodyA True;
                  bodyB = Body_setAwake bodyB True;
                  this = set_m_impulse_z this 0;
                  this = this\<lparr>m_lowerAngle := lower\<rparr>;
                  this = this\<lparr>m_upperAngle := upper\<rparr>
              in Inr (this, bodyA, bodyB))
           else Inr (this, bodyA, bodyB)))"

text \<open>
  \<open>initVelocityConstraints\<close> has three blocks, each a definition of its own: the
  temporaries with the effective mass matrix, the motor mass and the reset of the
  motor impulse; the limit state; and the warm start. \<open>fixedRotation\<close> is
  \<open>iA + iB === 0.0\<close> on the inverse inertias just stored.
\<close>

definition RevoluteJoint_updateLimitState ::
  "Settings \<Rightarrow> RevoluteJoint \<Rightarrow> real \<Rightarrow> real \<Rightarrow> bool \<Rightarrow> RevoluteJoint" where
  "RevoluteJoint_updateLimitState st this aA aB fixedRotation =
     (if m_enableLimit this \<and> fixedRotation = False then
        (let jointAngle = aB - aA - m_referenceAngle this in
         if Math_abs (m_upperAngle this - m_lowerAngle this) < 2 * angularSlop st then
           this\<lparr>m_limitState := equalLimits\<rparr>
         else if jointAngle \<le> m_lowerAngle this then
           (if m_limitState this \<noteq> atLowerLimit then set_m_impulse_z this 0 else this)
             \<lparr>m_limitState := atLowerLimit\<rparr>
         else if jointAngle \<ge> m_upperAngle this then
           (if m_limitState this \<noteq> atUpperLimit then set_m_impulse_z this 0 else this)
             \<lparr>m_limitState := atUpperLimit\<rparr>
         else
           set_m_impulse_z (this\<lparr>m_limitState := inactiveLimit\<rparr>) 0)
      else this\<lparr>m_limitState := inactiveLimit\<rparr>)"

definition RevoluteJoint_warmStart ::
  "TimeStep \<Rightarrow> RevoluteJoint \<Rightarrow> Vec2 \<Rightarrow> real \<Rightarrow> Vec2 \<Rightarrow> real
     \<Rightarrow> RevoluteJoint \<times> Vec2 \<times> real \<times> Vec2 \<times> real" where
  "RevoluteJoint_warmStart step this vA wA vB wB =
     (let mA = RevoluteJoint.m_invMassA this;
          mB = RevoluteJoint.m_invMassB this;
          iA = RevoluteJoint.m_invIA this;
          iB = RevoluteJoint.m_invIB this in
      if warmStarting step then
        (let this = this\<lparr>RevoluteJoint.m_impulse :=
                           Vec3_mul (RevoluteJoint.m_impulse this) (dtRatio step)\<rparr>;
             this = this\<lparr>m_motorImpulse := m_motorImpulse this * dtRatio step\<rparr>;
             P = Vec2 (Vec3_x (RevoluteJoint.m_impulse this))
                      (Vec3_y (RevoluteJoint.m_impulse this));
             vA = Vec2_subMul vA mA P;
             wA = wA - iA * (Vec2_cross (RevoluteJoint.m_rA this) P + m_motorImpulse this
                               + Vec3_z (RevoluteJoint.m_impulse this));
             vB = Vec2_addMul vB mB P;
             wB = wB + iB * (Vec2_cross (RevoluteJoint.m_rB this) P + m_motorImpulse this
                               + Vec3_z (RevoluteJoint.m_impulse this))
         in (this, vA, wA, vB, wB))
      else
        (let this = this\<lparr>RevoluteJoint.m_impulse := Vec3_zero\<rparr>;
             this = this\<lparr>m_motorImpulse := 0\<rparr>
         in (this, vA, wA, vB, wB)))"

definition RevoluteJoint_initMass ::
  "RevoluteJoint \<Rightarrow> Body \<Rightarrow> Body \<Rightarrow> RevoluteJoint option" where
  "RevoluteJoint_initMass this bodyA bodyB = do {
     let this = this\<lparr>RevoluteJoint.m_localCenterA := localCenter (m_sweep bodyA),
                      RevoluteJoint.m_localCenterB := localCenter (m_sweep bodyB),
                      RevoluteJoint.m_invMassA := m_invMass bodyA,
                      RevoluteJoint.m_invMassB := m_invMass bodyB,
                      RevoluteJoint.m_invIA := m_invI bodyA,
                      RevoluteJoint.m_invIB := m_invI bodyB\<rparr>;
     let aA = Position_a (c_position bodyA);
     let aB = Position_a (c_position bodyB);
     let qA = Rot_neo aA;
     let qB = Rot_neo aB;
     let this = this\<lparr>RevoluteJoint.m_rA :=
                        Rot_mulVec2 qA (Vec2_sub (RevoluteJoint.m_localAnchorA this)
                                                 (RevoluteJoint.m_localCenterA this)),
                      RevoluteJoint.m_rB :=
                        Rot_mulVec2 qB (Vec2_sub (RevoluteJoint.m_localAnchorB this)
                                                 (RevoluteJoint.m_localCenterB this))\<rparr>;
     let mA = RevoluteJoint.m_invMassA this;
     let mB = RevoluteJoint.m_invMassB this;
     let iA = RevoluteJoint.m_invIA this;
     let iB = RevoluteJoint.m_invIB this;
     let fixedRotation = (iA + iB = 0);
     let rA = RevoluteJoint.m_rA this;
     let rB = RevoluteJoint.m_rB this;
     let ex_x = mA + mB + Vec2_y rA * Vec2_y rA * iA + Vec2_y rB * Vec2_y rB * iB;
     let ey_x = - Vec2_y rA * Vec2_x rA * iA - Vec2_y rB * Vec2_x rB * iB;
     let ez_x = - Vec2_y rA * iA - Vec2_y rB * iB;
     let ex_y = ey_x;
     let ey_y = mA + mB + Vec2_x rA * Vec2_x rA * iA + Vec2_x rB * Vec2_x rB * iB;
     let ez_y = Vec2_x rA * iA + Vec2_x rB * iB;
     let ex_z = ez_x;
     let ey_z = ez_y;
     let ez_z = iA + iB;
     let this = this\<lparr>RevoluteJoint.m_mass :=
                        Mat33 (Vec3 ex_x ex_y ex_z) (Vec3 ey_x ey_y ey_z) (Vec3 ez_x ez_y ez_z)\<rparr>;
     let this = this\<lparr>m_motorMass := iA + iB\<rparr>;
     motorMass \<leftarrow> (if m_motorMass this > 0 then recip (m_motorMass this)
                   else Some (m_motorMass this));
     let this = this\<lparr>m_motorMass := motorMass\<rparr>;
     Some (if m_enableMotor this = False \<or> fixedRotation
           then this\<lparr>m_motorImpulse := 0\<rparr> else this)
   }"

definition RevoluteJoint_initVelocityConstraints ::
  "Settings \<Rightarrow> TimeStep \<Rightarrow> RevoluteJoint \<Rightarrow> Body \<Rightarrow> Body
     \<Rightarrow> (RevoluteJoint \<times> Body \<times> Body) option" where
  "RevoluteJoint_initVelocityConstraints st step this bodyA bodyB = do {
     let aA = Position_a (c_position bodyA);
     let vA = Velocity_v (c_velocity bodyA);
     let wA = Velocity_w (c_velocity bodyA);
     let aB = Position_a (c_position bodyB);
     let vB = Velocity_v (c_velocity bodyB);
     let wB = Velocity_w (c_velocity bodyB);
     this \<leftarrow> RevoluteJoint_initMass this bodyA bodyB;
     let fixedRotation = (RevoluteJoint.m_invIA this + RevoluteJoint.m_invIB this = 0);
     let this = RevoluteJoint_updateLimitState st this aA aB fixedRotation;
     let (this, vA, wA, vB, wB) = RevoluteJoint_warmStart step this vA wA vB wB;
     Some (this, bodyA\<lparr>c_velocity := Velocity vA wA\<rparr>,
                 bodyB\<lparr>c_velocity := Velocity vB wB\<rparr>)
   }"

text \<open>
  \<open>solveVelocityConstraints\<close> has three blocks: the motor, the limit and the
  point-to-point constraint; each is a definition of its own here, on the working
  velocities \<open>vA\<close>, \<open>wA\<close>, \<open>vB\<close>, \<open>wB\<close> the method holds in local variables.
\<close>

definition RevoluteJoint_solveMotor ::
  "TimeStep \<Rightarrow> RevoluteJoint \<Rightarrow> real \<Rightarrow> real \<Rightarrow> RevoluteJoint \<times> real \<times> real" where
  "RevoluteJoint_solveMotor step this wA wB =
     (let iA = RevoluteJoint.m_invIA this;
          iB = RevoluteJoint.m_invIB this;
          fixedRotation = (iA + iB = 0) in
      if m_enableMotor this \<and> m_limitState this \<noteq> equalLimits \<and> fixedRotation = False then
        (let Cdot = wB - wA - m_motorSpeed this;
             impulse = - m_motorMass this * Cdot;
             oldImpulse = m_motorImpulse this;
             maxImpulse = dt step * m_maxMotorTorque this;
             this = this\<lparr>m_motorImpulse :=
                      Math_clamp (m_motorImpulse this + impulse) (- maxImpulse) maxImpulse\<rparr>;
             impulse = m_motorImpulse this - oldImpulse
         in (this, wA - iA * impulse, wB + iB * impulse))
      else (this, wA, wB))"

definition RevoluteJoint_solveLimit ::
  "RevoluteJoint \<Rightarrow> Vec2 \<Rightarrow> real \<Rightarrow> Vec2 \<Rightarrow> real
     \<Rightarrow> (RevoluteJoint \<times> Vec2 \<times> real \<times> Vec2 \<times> real) option" where
  "RevoluteJoint_solveLimit this vA wA vB wB = do {
     let mA = RevoluteJoint.m_invMassA this;
     let mB = RevoluteJoint.m_invMassB this;
     let iA = RevoluteJoint.m_invIA this;
     let iB = RevoluteJoint.m_invIB this;
     let Cdot1 = Vec2_zero;
     let Cdot1 = Vec2_addCombine Cdot1 1 vB 1 (Vec2_crossNumVec wB (RevoluteJoint.m_rB this));
     let Cdot1 = Vec2_subCombine Cdot1 1 vA 1 (Vec2_crossNumVec wA (RevoluteJoint.m_rA this));
     let Cdot2 = wB - wA;
     let Cdot = Vec3 (Vec2_x Cdot1) (Vec2_y Cdot1) Cdot2;
     solved \<leftarrow> Mat33_solve33 (RevoluteJoint.m_mass this) Cdot;
     let impulse = Vec3_neg solved;
     (impulse, this) \<leftarrow>
       (if m_limitState this = equalLimits then
          Some (impulse, this\<lparr>RevoluteJoint.m_impulse :=
                                Vec3_add (RevoluteJoint.m_impulse this) impulse\<rparr>)
        else if m_limitState this = atLowerLimit then
          (let newImpulse = Vec3_z (RevoluteJoint.m_impulse this) + Vec3_z impulse in
           if newImpulse < 0 then do {
             let rhs = Vec2_combine (- 1) Cdot1 (Vec3_z (RevoluteJoint.m_impulse this))
                         (Vec2 (Vec3_x (Mat33_ez (RevoluteJoint.m_mass this)))
                               (Vec3_y (Mat33_ez (RevoluteJoint.m_mass this))));
             reduced \<leftarrow> Mat33_solve22 (RevoluteJoint.m_mass this) rhs;
             Some (Vec3 (Vec2_x reduced) (Vec2_y reduced)
                        (- Vec3_z (RevoluteJoint.m_impulse this)),
                   this\<lparr>RevoluteJoint.m_impulse :=
                          Vec3 (Vec3_x (RevoluteJoint.m_impulse this) + Vec2_x reduced)
                               (Vec3_y (RevoluteJoint.m_impulse this) + Vec2_y reduced) 0\<rparr>)
           } else
             Some (impulse, this\<lparr>RevoluteJoint.m_impulse :=
                                   Vec3_add (RevoluteJoint.m_impulse this) impulse\<rparr>))
        else if m_limitState this = atUpperLimit then
          (let newImpulse = Vec3_z (RevoluteJoint.m_impulse this) + Vec3_z impulse in
           if newImpulse > 0 then do {
             let rhs = Vec2_combine (- 1) Cdot1 (Vec3_z (RevoluteJoint.m_impulse this))
                         (Vec2 (Vec3_x (Mat33_ez (RevoluteJoint.m_mass this)))
                               (Vec3_y (Mat33_ez (RevoluteJoint.m_mass this))));
             reduced \<leftarrow> Mat33_solve22 (RevoluteJoint.m_mass this) rhs;
             Some (Vec3 (Vec2_x reduced) (Vec2_y reduced)
                        (- Vec3_z (RevoluteJoint.m_impulse this)),
                   this\<lparr>RevoluteJoint.m_impulse :=
                          Vec3 (Vec3_x (RevoluteJoint.m_impulse this) + Vec2_x reduced)
                               (Vec3_y (RevoluteJoint.m_impulse this) + Vec2_y reduced) 0\<rparr>)
           } else
             Some (impulse, this\<lparr>RevoluteJoint.m_impulse :=
                                   Vec3_add (RevoluteJoint.m_impulse this) impulse\<rparr>))
        else Some (impulse, this));
     let P = Vec2 (Vec3_x impulse) (Vec3_y impulse);
     let vA = Vec2_subMul vA mA P;
     let wA = wA - iA * (Vec2_cross (RevoluteJoint.m_rA this) P + Vec3_z impulse);
     let vB = Vec2_addMul vB mB P;
     let wB = wB + iB * (Vec2_cross (RevoluteJoint.m_rB this) P + Vec3_z impulse);
     Some (this, vA, wA, vB, wB)
   }"

definition RevoluteJoint_solvePoint ::
  "RevoluteJoint \<Rightarrow> Vec2 \<Rightarrow> real \<Rightarrow> Vec2 \<Rightarrow> real
     \<Rightarrow> (RevoluteJoint \<times> Vec2 \<times> real \<times> Vec2 \<times> real) option" where
  "RevoluteJoint_solvePoint this vA wA vB wB = do {
     let mA = RevoluteJoint.m_invMassA this;
     let mB = RevoluteJoint.m_invMassB this;
     let iA = RevoluteJoint.m_invIA this;
     let iB = RevoluteJoint.m_invIB this;
     let Cdot = Vec2_zero;
     let Cdot = Vec2_addCombine Cdot 1 vB 1 (Vec2_crossNumVec wB (RevoluteJoint.m_rB this));
     let Cdot = Vec2_subCombine Cdot 1 vA 1 (Vec2_crossNumVec wA (RevoluteJoint.m_rA this));
     impulse \<leftarrow> Mat33_solve22 (RevoluteJoint.m_mass this) (Vec2_neg Cdot);
     let this = this\<lparr>RevoluteJoint.m_impulse :=
                        Vec3 (Vec3_x (RevoluteJoint.m_impulse this) + Vec2_x impulse)
                             (Vec3_y (RevoluteJoint.m_impulse this) + Vec2_y impulse)
                             (Vec3_z (RevoluteJoint.m_impulse this))\<rparr>;
     let vA = Vec2_subMul vA mA impulse;
     let wA = wA - iA * Vec2_cross (RevoluteJoint.m_rA this) impulse;
     let vB = Vec2_addMul vB mB impulse;
     let wB = wB + iB * Vec2_cross (RevoluteJoint.m_rB this) impulse;
     Some (this, vA, wA, vB, wB)
   }"

definition RevoluteJoint_solveVelocityConstraints ::
  "TimeStep \<Rightarrow> RevoluteJoint \<Rightarrow> Body \<Rightarrow> Body \<Rightarrow> (RevoluteJoint \<times> Body \<times> Body) option" where
  "RevoluteJoint_solveVelocityConstraints step this bodyA bodyB = do {
     let vA = Velocity_v (c_velocity bodyA);
     let wA = Velocity_w (c_velocity bodyA);
     let vB = Velocity_v (c_velocity bodyB);
     let wB = Velocity_w (c_velocity bodyB);
     let iA = RevoluteJoint.m_invIA this;
     let iB = RevoluteJoint.m_invIB this;
     let fixedRotation = (iA + iB = 0);
     let (this, wA, wB) = RevoluteJoint_solveMotor step this wA wB;
     (this, vA, wA, vB, wB) \<leftarrow>
       (if m_enableLimit this \<and> m_limitState this \<noteq> inactiveLimit \<and> fixedRotation = False
        then RevoluteJoint_solveLimit this vA wA vB wB
        else RevoluteJoint_solvePoint this vA wA vB wB);
     Some (this, bodyA\<lparr>c_velocity := Velocity vA wA\<rparr>,
                 bodyB\<lparr>c_velocity := Velocity vB wB\<rparr>)
   }"




section \<open>Pulley joint\<close>

text \<open>
  \<open>dynamics/joint/PulleyJoint.ts\<close>. The constructor takes the definition, the two
  bodies and, each possibly absent, the ground anchors, the body anchors (in world
  coordinates) and the ratio. \<open>Vec2.distance\<close> reads the fields of both arguments and
  throws on an absent one. The comparison \<open>ratio > Math.EPSILON\<close> is false for an
  absent \<open>ratio\<close>.
\<close>

record PulleyJointDef =
  groundAnchorA :: "Vec2 option"
  groundAnchorB :: "Vec2 option"
  localAnchorA :: "Vec2 option"
  localAnchorB :: "Vec2 option"
  lengthA :: "real option"
  lengthB :: "real option"
  ratio :: "real option"

record PulleyJoint =
  m_groundAnchorA :: Vec2
  m_groundAnchorB :: Vec2
  m_localAnchorA :: Vec2
  m_localAnchorB :: Vec2
  m_lengthA :: real
  m_lengthB :: real
  m_ratio :: real
  m_constant :: real
  m_impulse :: real
  m_uA :: Vec2
  m_uB :: Vec2
  m_rA :: Vec2
  m_rB :: Vec2
  m_localCenterA :: Vec2
  m_localCenterB :: Vec2
  m_invMassA :: real
  m_invMassB :: real
  m_invIA :: real
  m_invIB :: real
  m_mass :: real

definition Vec2_distance_opt :: "Vec2 option \<Rightarrow> Vec2 option \<Rightarrow> error + real" where
  "Vec2_distance_opt v w =
     (case (v, w) of
        (Some v', Some w') \<Rightarrow> Inr (Vec2_distance v' w')
      | _ \<Rightarrow> Inl TypeError)"

definition PulleyJoint_new ::
  "bool \<Rightarrow> Settings \<Rightarrow> PulleyJointDef \<Rightarrow> Body \<Rightarrow> Body \<Rightarrow> Vec2 option \<Rightarrow> Vec2 option
     \<Rightarrow> Vec2 option \<Rightarrow> Vec2 option \<Rightarrow> real option \<Rightarrow> error + PulleyJoint" where
  "PulleyJoint_new ASSERT st def bodyA bodyB groundA groundB anchorA anchorB ratio' =
     (let groundAnchorA' =
            (case groundA of
               Some g \<Rightarrow> g
             | None \<Rightarrow> (case groundAnchorA def of Some g \<Rightarrow> g | None \<Rightarrow> Vec2 (- 1) 1));
          groundAnchorB' =
            (case groundB of
               Some g \<Rightarrow> g
             | None \<Rightarrow> (case groundAnchorB def of Some g \<Rightarrow> g | None \<Rightarrow> Vec2 1 1));
          localAnchorA' =
            (case anchorA of
               Some a \<Rightarrow> Body_getLocalPoint bodyA a
             | None \<Rightarrow> (case PulleyJointDef.localAnchorA def of
                          Some l \<Rightarrow> l | None \<Rightarrow> Vec2 (- 1) 0));
          localAnchorB' =
            (case anchorB of
               Some b \<Rightarrow> Body_getLocalPoint bodyB b
             | None \<Rightarrow> (case PulleyJointDef.localAnchorB def of
                          Some l \<Rightarrow> l | None \<Rightarrow> Vec2 1 0))
      in
      (case (case lengthA def of Some l \<Rightarrow> Inr l | None \<Rightarrow> Vec2_distance_opt anchorA groundA) of
         Inl e \<Rightarrow> Inl e
       | Inr lengthA' \<Rightarrow>
      (case (case lengthB def of Some l \<Rightarrow> Inr l | None \<Rightarrow> Vec2_distance_opt anchorB groundB) of
         Inl e \<Rightarrow> Inl e
       | Inr lengthB' \<Rightarrow>
      (let ratio_opt = (case ratio' of Some r \<Rightarrow> Some r | None \<Rightarrow> ratio def) in
      (case assert ASSERT (case ratio' of Some r \<Rightarrow> r > EPSILON st | None \<Rightarrow> False) of
         Inl e \<Rightarrow> Inl e
       | Inr _ \<Rightarrow>
      (case ratio_opt of
         None \<Rightarrow> Inl NotANumber
       | Some r \<Rightarrow>
           Inr \<lparr>m_groundAnchorA = groundAnchorA',
                m_groundAnchorB = groundAnchorB',
                PulleyJoint.m_localAnchorA = localAnchorA',
                PulleyJoint.m_localAnchorB = localAnchorB',
                m_lengthA = lengthA',
                m_lengthB = lengthB',
                m_ratio = r,
                m_constant = lengthA' + r * lengthB',
                PulleyJoint.m_impulse = 0,
                m_uA = Vec2_zero,
                m_uB = Vec2_zero,
                PulleyJoint.m_rA = Vec2_zero,
                PulleyJoint.m_rB = Vec2_zero,
                PulleyJoint.m_localCenterA = Vec2_zero,
                PulleyJoint.m_localCenterB = Vec2_zero,
                PulleyJoint.m_invMassA = 0,
                PulleyJoint.m_invMassB = 0,
                PulleyJoint.m_invIA = 0,
                PulleyJoint.m_invIB = 0,
                PulleyJoint.m_mass = 0\<rparr>))))))"

text \<open>
  \<open>initVelocityConstraints\<close> has two blocks, each a definition of its own: the
  temporaries with the pulley axes and the effective mass, and the warm start.
\<close>

definition PulleyJoint_warmStart ::
  "TimeStep \<Rightarrow> PulleyJoint \<Rightarrow> Vec2 \<Rightarrow> real \<Rightarrow> Vec2 \<Rightarrow> real
     \<Rightarrow> PulleyJoint \<times> Vec2 \<times> real \<times> Vec2 \<times> real" where
  "PulleyJoint_warmStart step this vA wA vB wB =
     (if warmStarting step then
        (let this = this\<lparr>PulleyJoint.m_impulse := PulleyJoint.m_impulse this * dtRatio step\<rparr>;
             PA = Vec2_mul (- PulleyJoint.m_impulse this) (m_uA this);
             PB = Vec2_mul (- m_ratio this * PulleyJoint.m_impulse this) (m_uB this);
             vA = Vec2_addMul vA (PulleyJoint.m_invMassA this) PA;
             wA = wA + PulleyJoint.m_invIA this * Vec2_cross (PulleyJoint.m_rA this) PA;
             vB = Vec2_addMul vB (PulleyJoint.m_invMassB this) PB;
             wB = wB + PulleyJoint.m_invIB this * Vec2_cross (PulleyJoint.m_rB this) PB
         in (this, vA, wA, vB, wB))
      else
        (let this = this\<lparr>PulleyJoint.m_impulse := 0\<rparr>
         in (this, vA, wA, vB, wB)))"

definition PulleyJoint_initMass ::
  "Settings \<Rightarrow> PulleyJoint \<Rightarrow> Body \<Rightarrow> Body \<Rightarrow> PulleyJoint option" where
  "PulleyJoint_initMass st this bodyA bodyB = do {
     let this = this\<lparr>PulleyJoint.m_localCenterA := localCenter (m_sweep bodyA),
                      PulleyJoint.m_localCenterB := localCenter (m_sweep bodyB),
                      PulleyJoint.m_invMassA := m_invMass bodyA,
                      PulleyJoint.m_invMassB := m_invMass bodyB,
                      PulleyJoint.m_invIA := m_invI bodyA,
                      PulleyJoint.m_invIB := m_invI bodyB\<rparr>;
     let cA = Position_c (c_position bodyA);
     let aA = Position_a (c_position bodyA);
     let cB = Position_c (c_position bodyB);
     let aB = Position_a (c_position bodyB);
     let qA = Rot_neo aA;
     let qB = Rot_neo aB;
     let this = this\<lparr>PulleyJoint.m_rA :=
                        Rot_mulVec2 qA (Vec2_sub (PulleyJoint.m_localAnchorA this)
                                                 (PulleyJoint.m_localCenterA this)),
                      PulleyJoint.m_rB :=
                        Rot_mulVec2 qB (Vec2_sub (PulleyJoint.m_localAnchorB this)
                                                 (PulleyJoint.m_localCenterB this))\<rparr>;
     let uA = Vec2_sub (Vec2_add cA (PulleyJoint.m_rA this)) (m_groundAnchorA this);
     let uB = Vec2_sub (Vec2_add cB (PulleyJoint.m_rB this)) (m_groundAnchorB this);
     let lengthA = Vec2_length uA;
     let lengthB = Vec2_length uB;
     uA \<leftarrow> (if lengthA > 10 * linearSlop st
            then do { inv \<leftarrow> recip lengthA; Some (Vec2_mul inv uA) }
            else Some Vec2_zero);
     uB \<leftarrow> (if lengthB > 10 * linearSlop st
            then do { inv \<leftarrow> recip lengthB; Some (Vec2_mul inv uB) }
            else Some Vec2_zero);
     let this = this\<lparr>m_uA := uA, m_uB := uB\<rparr>;
     let ruA = Vec2_cross (PulleyJoint.m_rA this) (m_uA this);
     let ruB = Vec2_cross (PulleyJoint.m_rB this) (m_uB this);
     let mA = PulleyJoint.m_invMassA this + PulleyJoint.m_invIA this * ruA * ruA;
     let mB = PulleyJoint.m_invMassB this + PulleyJoint.m_invIB this * ruB * ruB;
     let this = this\<lparr>PulleyJoint.m_mass := mA + m_ratio this * m_ratio this * mB\<rparr>;
     mass \<leftarrow> (if PulleyJoint.m_mass this > 0 then recip (PulleyJoint.m_mass this)
              else Some (PulleyJoint.m_mass this));
     Some (this\<lparr>PulleyJoint.m_mass := mass\<rparr>)
   }"

definition PulleyJoint_initVelocityConstraints ::
  "Settings \<Rightarrow> TimeStep \<Rightarrow> PulleyJoint \<Rightarrow> Body \<Rightarrow> Body
     \<Rightarrow> (PulleyJoint \<times> Body \<times> Body) option" where
  "PulleyJoint_initVelocityConstraints st step this bodyA bodyB = do {
     let vA = Velocity_v (c_velocity bodyA);
     let wA = Velocity_w (c_velocity bodyA);
     let vB = Velocity_v (c_velocity bodyB);
     let wB = Velocity_w (c_velocity bodyB);
     this \<leftarrow> PulleyJoint_initMass st this bodyA bodyB;
     let (this, vA, wA, vB, wB) = PulleyJoint_warmStart step this vA wA vB wB;
     Some (this, bodyA\<lparr>c_velocity := Velocity vA wA\<rparr>,
                 bodyB\<lparr>c_velocity := Velocity vB wB\<rparr>)
   }"


section \<open>The effective-mass sum of the specification\<close>

text \<open>
  The specification's rigid-body sum
  \<open>invMass_A + invMass_B + invI_A * (r_A \<times> axis)\<^sup>2 + invI_B * (r_B \<times> axis)\<^sup>2\<close>,
  from its words, with the two cross products \<open>r_A \<times> axis\<close> and \<open>r_B \<times> axis\<close> as
  arguments; the joints' own sums are compared with it.
\<close>

definition spec_effective_mass_sum :: "real \<Rightarrow> real \<Rightarrow> real \<Rightarrow> real \<Rightarrow> real \<Rightarrow> real \<Rightarrow> real" where
  "spec_effective_mass_sum invMassA invMassB invIA invIB crA crB =
     invMassA + invMassB + invIA * crA\<^sup>2 + invIB * crB\<^sup>2"

section \<open>Example configurations\<close>

text \<open>
  Concrete settings, bodies, shapes and joints, on which the theorems below are
  instantiated. A body of \<open>example_body\<close> sits at \<open>c\<close> with no rotation and at rest;
  \<open>example_manifold\<close> is a fresh manifold with its two points; the joints have their
  anchors at the bodies' origins, and the pulley has its ground anchors on the x axis.
  \<open>example_distance_solved\<close> is the rigid distance joint of natural length 1 as
  \<open>initVelocityConstraints\<close> leaves it between two bodies of unit mass three apart.
  \<open>example_revolute_at_lower\<close> is a revolute joint at its lower limit, as
  \<open>initVelocityConstraints\<close> leaves it between a body of unit mass and inertia and a
  static one, with an accumulated limit impulse of 2.
\<close>

definition example_settings :: Settings where
  "example_settings =
     \<lparr>linearSlop = 1 / 200, angularSlop = 7 / 200,
      maxLinearCorrection = 1 / 5, maxAngularCorrection = 7 / 50,
      EPSILON = 1 / 1000000000\<rparr>"

definition example_step :: "bool \<Rightarrow> TimeStep" where
  "example_step warm = \<lparr>dt = 1 / 60, dtRatio = 2, warmStarting = warm\<rparr>"

definition example_body :: "Vec2 \<Rightarrow> real \<Rightarrow> real \<Rightarrow> Body" where
  "example_body c invMass invI =
     \<lparr>m_xf = Transform c (Rot 0 1),
      m_sweep = \<lparr>localCenter = Vec2_zero, sweep_c = c, sweep_a = 0\<rparr>,
      m_invMass = invMass, m_invI = invI,
      m_linearVelocity = Vec2_zero, m_angularVelocity = 0,
      m_force = Vec2_zero, m_torque = 0,
      m_awakeFlag = False, m_sleepTime = 0,
      c_position = Position c 0,
      c_velocity = Velocity Vec2_zero 0\<rparr>"

definition example_manifold :: Manifold where
  "example_manifold =
     (let p = \<lparr>ManifoldPoint.localPoint = Vec2_zero, normalImpulse = 0, tangentImpulse = 0,
               cid = \<lparr>indexA = 0, indexB = 0, typeA = e_face, typeB = e_face\<rparr>\<rparr>
      in \<lparr>mtype = e_faceA, localNormal = Vec2_zero, Manifold.localPoint = Vec2_zero,
           points = [p, p], pointCount = 0\<rparr>)"

definition example_circle :: "Vec2 \<Rightarrow> real \<Rightarrow> CircleShape" where
  "example_circle p r = \<lparr>m_p = p, m_radius = r\<rparr>"

definition example_distance_def :: "real option \<Rightarrow> real option \<Rightarrow> DistanceJointDef" where
  "example_distance_def hz len =
     \<lparr>frequencyHz = hz, dampingRatio = None, def_length = len,
      DistanceJointDef.localAnchorA = None, DistanceJointDef.localAnchorB = None\<rparr>"

definition example_revolute :: "bool \<Rightarrow> real \<Rightarrow> real \<Rightarrow> RevoluteJoint" where
  "example_revolute limit lower upper =
     \<lparr>RevoluteJoint.m_localAnchorA = Vec2_zero, RevoluteJoint.m_localAnchorB = Vec2_zero,
      m_referenceAngle = 0, RevoluteJoint.m_impulse = Vec3 1 1 1, m_motorImpulse = 1,
      m_lowerAngle = lower, m_upperAngle = upper, m_maxMotorTorque = 0, m_motorSpeed = 0,
      m_enableLimit = limit, m_enableMotor = False,
      RevoluteJoint.m_rA = Vec2_zero, RevoluteJoint.m_rB = Vec2_zero,
      RevoluteJoint.m_localCenterA = Vec2_zero, RevoluteJoint.m_localCenterB = Vec2_zero,
      RevoluteJoint.m_invMassA = 0, RevoluteJoint.m_invMassB = 0,
      RevoluteJoint.m_invIA = 0, RevoluteJoint.m_invIB = 0,
      RevoluteJoint.m_mass = Mat33 Vec3_zero Vec3_zero Vec3_zero,
      m_motorMass = 0, m_limitState = inactiveLimit\<rparr>"

definition example_distance :: "real \<Rightarrow> real \<Rightarrow> DistanceJoint" where
  "example_distance hz impulse =
     (DistanceJoint_new (example_distance_def (Some hz) (Some 1))
        (example_body (Vec2 0 0) 1 1) (example_body (Vec2 3 0) 1 1) None None)
       \<lparr>DistanceJoint.m_impulse := impulse\<rparr>"


definition example_pulley :: "real \<Rightarrow> PulleyJoint" where
  "example_pulley r =
     \<lparr>m_groundAnchorA = Vec2 (- 3) 0, m_groundAnchorB = Vec2 7 0,
      PulleyJoint.m_localAnchorA = Vec2_zero, PulleyJoint.m_localAnchorB = Vec2_zero,
      m_lengthA = 1, m_lengthB = 1, m_ratio = r, m_constant = 1 + r * 1,
      PulleyJoint.m_impulse = 3,
      m_uA = Vec2_zero, m_uB = Vec2_zero,
      PulleyJoint.m_rA = Vec2_zero, PulleyJoint.m_rB = Vec2_zero,
      PulleyJoint.m_localCenterA = Vec2_zero, PulleyJoint.m_localCenterB = Vec2_zero,
      PulleyJoint.m_invMassA = 1, PulleyJoint.m_invMassB = 1,
      PulleyJoint.m_invIA = 1, PulleyJoint.m_invIB = 1,
      PulleyJoint.m_mass = 0\<rparr>"

definition example_revolute_at_lower :: RevoluteJoint where
  "example_revolute_at_lower =
     (example_revolute True 0 1)
       \<lparr>m_limitState := atLowerLimit,
        RevoluteJoint.m_impulse := Vec3 0 0 2,
        RevoluteJoint.m_mass := Mat33 (Vec3 1 0 0) (Vec3 0 1 0) (Vec3 0 0 1),
        RevoluteJoint.m_invMassA := 1, RevoluteJoint.m_invIA := 1\<rparr>"

definition example_moving_body :: Body where
  "example_moving_body = (example_body (Vec2 0 0) 0 0)\<lparr>c_velocity := Velocity (Vec2 1 0) 1\<rparr>"


section \<open>Circle against circle\<close>

lemma sqrt_sum_squares_le_iff:
  "0 \<le> r \<Longrightarrow> (sqrt (a * a + b * b) \<le> r) = (a * a + b * b \<le> r * r)"
proof -
  assume r: "0 \<le> r"
  have "(sqrt (a * a + b * b) \<le> r) = (sqrt (a * a + b * b) \<le> sqrt (r * r))"
    using r by simp
  also have "\<dots> = (a * a + b * b \<le> r * r)" by (rule real_sqrt_le_iff)
  finally show ?thesis .
qed

text \<open>
  C1. For two circles whose radii have a non-negative sum, and a manifold that has its
  points array, \<open>CollideCircles\<close> returns the manifold with point count 1 when the
  distance of the world-space centres is at most the sum of the radii, and with point
  count 0 otherwise. When touching, the manifold type is \<open>e_circles\<close> and the local
  point of the one manifold point is the local centre of the second circle; when not
  touching, type and points are as before.
\<close>

theorem CollideCircles_point_count:
  assumes "0 \<le> m_radius circleA + m_radius circleB"
    and "points manifold \<noteq> []"
  shows "\<exists>m'. CollideCircles manifold circleA xfA circleB xfB = Inr m' \<and>
           pointCount m' =
             (if Vec2_distance (Transform_mulVec2 xfB (m_p circleB))
                               (Transform_mulVec2 xfA (m_p circleA))
                   \<le> m_radius circleA + m_radius circleB
              then 1 else 0) \<and>
           (if Vec2_distance (Transform_mulVec2 xfB (m_p circleB))
                               (Transform_mulVec2 xfA (m_p circleA))
                   \<le> m_radius circleA + m_radius circleB
            then mtype m' = e_circles \<and>
                 ManifoldPoint.localPoint (points m' ! 0) = m_p circleB
            else mtype m' = mtype manifold \<and> points m' = points manifold)"
proof -
  obtain p0 ps where ps: "points manifold = p0 # ps"
    using assms(2) by (cases "points manifold") auto
  show ?thesis
    using assms(1) ps
    by (simp add: CollideCircles_def Vec2_distance_def Vec2_distanceSquared_def Let_def
        sqrt_sum_squares_le_iff not_less)
qed

theorem CollideCircles_point_count_witness:
  "0 \<le> m_radius (example_circle (Vec2 0 0) 1) + m_radius (example_circle (Vec2 1 0) 1)
   \<and> points example_manifold \<noteq> []
   \<and> (\<exists>m'. CollideCircles example_manifold (example_circle (Vec2 0 0) 1)
               (Transform (Vec2 0 0) (Rot 0 1)) (example_circle (Vec2 1 0) 1)
               (Transform (Vec2 1 0) (Rot 0 1)) = Inr m'
          \<and> pointCount m' = 1 \<and> mtype m' = e_circles
          \<and> ManifoldPoint.localPoint (points m' ! 0) = Vec2 1 0)
   \<and> (\<exists>m'. CollideCircles example_manifold (example_circle (Vec2 0 0) 1)
               (Transform (Vec2 0 0) (Rot 0 1)) (example_circle (Vec2 1 0) 1)
               (Transform (Vec2 2 0) (Rot 0 1)) = Inr m'
          \<and> pointCount m' = 0 \<and> mtype m' = e_faceA)"
  using CollideCircles_point_count [of "example_circle (Vec2 0 0) 1" "example_circle (Vec2 1 0) 1"
          example_manifold "Transform (Vec2 0 0) (Rot 0 1)" "Transform (Vec2 1 0) (Rot 0 1)"]
        CollideCircles_point_count [of "example_circle (Vec2 0 0) 1" "example_circle (Vec2 1 0) 1"
          example_manifold "Transform (Vec2 0 0) (Rot 0 1)" "Transform (Vec2 2 0) (Rot 0 1)"]
  by (auto simp add: example_circle_def example_manifold_def Transform_mulVec2_def
      Vec2_distance_def Let_def)

section \<open>Revolute joint: limit state\<close>

lemma RevoluteJoint_warmStart_limitState:
  "RevoluteJoint_warmStart step j vA wA vB wB = (j', r) \<Longrightarrow> m_limitState j' = m_limitState j"
  by (auto simp add: RevoluteJoint_warmStart_def Let_def split: if_splits)

lemma RevoluteJoint_updateLimitState_equal:
  "m_enableLimit j \<Longrightarrow> \<not> fr \<Longrightarrow> \<bar>m_upperAngle j - m_lowerAngle j\<bar> < 2 * angularSlop st
   \<Longrightarrow> m_limitState (RevoluteJoint_updateLimitState st j aA aB fr) = equalLimits"
  by (simp add: RevoluteJoint_updateLimitState_def Math_abs_def)

text \<open>
  C2. For a revolute joint with the limit enabled, between two bodies of which at
  least one can rotate (\<open>invIA + invIB > 0\<close>) and with
  \<open>|upperAngle - lowerAngle| < 2 * angularSlop\<close>, \<open>initVelocityConstraints\<close>
  returns with the limit state \<open>equalLimits\<close>, and so neither \<open>atLowerLimit\<close> nor
  \<open>atUpperLimit\<close>, whatever the joint angle and the former limit state.
\<close>

theorem RevoluteJoint_equal_limits_state:
  assumes "m_enableLimit this"
    and "m_invI bodyA + m_invI bodyB > 0"
    and "\<bar>m_upperAngle this - m_lowerAngle this\<bar> < 2 * angularSlop st"
  shows "\<exists>j' a' b'. RevoluteJoint_initVelocityConstraints st step this bodyA bodyB = Some (j', a', b')
           \<and> m_limitState j' = equalLimits
           \<and> m_limitState j' \<noteq> atLowerLimit \<and> m_limitState j' \<noteq> atUpperLimit"
proof -
  obtain j1 where j1: "RevoluteJoint_initMass this bodyA bodyB = Some j1"
    and e1: "m_enableLimit j1 = m_enableLimit this"
    and i1: "RevoluteJoint.m_invIA j1 = m_invI bodyA" "RevoluteJoint.m_invIB j1 = m_invI bodyB"
    and l1: "m_upperAngle j1 = m_upperAngle this" "m_lowerAngle j1 = m_lowerAngle this"
    using assms(2) by (simp add: RevoluteJoint_initMass_def Let_def recip_def)
  define j2 where "j2 = RevoluteJoint_updateLimitState st j1 (Position_a (c_position bodyA))
      (Position_a (c_position bodyB)) (RevoluteJoint.m_invIA j1 + RevoluteJoint.m_invIB j1 = 0)"
  have s2: "m_limitState j2 = equalLimits"
    unfolding j2_def using assms e1 i1 l1
    by (intro RevoluteJoint_updateLimitState_equal) simp_all
  obtain j3 vA' wA' vB' wB' where
    ws: "RevoluteJoint_warmStart step j2 (Velocity_v (c_velocity bodyA))
           (Velocity_w (c_velocity bodyA)) (Velocity_v (c_velocity bodyB))
           (Velocity_w (c_velocity bodyB)) = (j3, vA', wA', vB', wB')"
    by (rule prod_cases5)
  have "RevoluteJoint_initVelocityConstraints st step this bodyA bodyB
          = Some (j3, bodyA\<lparr>c_velocity := Velocity vA' wA'\<rparr>,
                  bodyB\<lparr>c_velocity := Velocity vB' wB'\<rparr>)"
    using j1 ws by (simp add: RevoluteJoint_initVelocityConstraints_def Let_def j2_def)
  moreover have "m_limitState j3 = equalLimits"
    using RevoluteJoint_warmStart_limitState [OF ws] s2 by simp
  ultimately show ?thesis by simp
qed

theorem RevoluteJoint_equal_limits_state_witness:
  "m_enableLimit (example_revolute True 0 0)
   \<and> m_invI (example_body (Vec2 0 0) 1 1) + m_invI (example_body (Vec2 0 0) 1 0) > 0
   \<and> \<bar>m_upperAngle (example_revolute True 0 0) - m_lowerAngle (example_revolute True 0 0)\<bar>
        < 2 * angularSlop example_settings
   \<and> (\<exists>j' a' b'. RevoluteJoint_initVelocityConstraints example_settings (example_step True)
          (example_revolute True 0 0) (example_body (Vec2 0 0) 1 1) (example_body (Vec2 0 0) 1 0)
            = Some (j', a', b')
          \<and> m_limitState j' = equalLimits)"
proof -
  have h1: "m_enableLimit (example_revolute True 0 0)"
    by (simp add: example_revolute_def)
  have h2: "m_invI (example_body (Vec2 0 0) 1 1) + m_invI (example_body (Vec2 0 0) 1 0) > 0"
    by (simp add: example_body_def)
  have h3: "\<bar>m_upperAngle (example_revolute True 0 0) - m_lowerAngle (example_revolute True 0 0)\<bar>
        < 2 * angularSlop example_settings"
    by (simp add: example_revolute_def example_settings_def)
  from RevoluteJoint_equal_limits_state [OF h1 h2 h3, of "example_step True"] h1 h2 h3
  show ?thesis by blast
qed

section \<open>Distance joint: soft mode and length\<close>

text \<open>
  C4. For a distance joint with \<open>frequencyHz > 0\<close>, \<open>solvePositionConstraints\<close>
  returns true and leaves the joint and both bodies, with their working positions and
  angles, as they were.
\<close>

theorem DistanceJoint_soft_no_position_correction:
  assumes "DistanceJoint.m_frequencyHz this > 0"
  shows "DistanceJoint_solvePositionConstraints st step this bodyA bodyB
           = Some (True, this, bodyA, bodyB)"
  using assms by (simp add: DistanceJoint_solvePositionConstraints_def)

theorem DistanceJoint_soft_no_position_correction_witness:
  "DistanceJoint.m_frequencyHz
      (DistanceJoint_new (example_distance_def (Some 4) (Some 1))
         (example_body (Vec2 0 0) 1 1) (example_body (Vec2 3 0) 1 1) None None) > 0
   \<and> DistanceJoint_solvePositionConstraints example_settings (example_step True)
        (DistanceJoint_new (example_distance_def (Some 4) (Some 1))
           (example_body (Vec2 0 0) 1 1) (example_body (Vec2 3 0) 1 1) None None)
        (example_body (Vec2 0 0) 1 1) (example_body (Vec2 3 0) 1 1)
      = Some (True,
          DistanceJoint_new (example_distance_def (Some 4) (Some 1))
            (example_body (Vec2 0 0) 1 1) (example_body (Vec2 3 0) 1 1) None None,
          example_body (Vec2 0 0) 1 1, example_body (Vec2 3 0) 1 1)"
proof -
  have h: "DistanceJoint.m_frequencyHz
      (DistanceJoint_new (example_distance_def (Some 4) (Some 1))
         (example_body (Vec2 0 0) 1 1) (example_body (Vec2 3 0) 1 1) None None) > 0"
    by (simp add: DistanceJoint_new_def example_distance_def_def Let_def)
  from DistanceJoint_soft_no_position_correction [OF h] h show ?thesis by blast
qed

lemma Transform_mulVec2_mulTVec2:
  assumes "Rot_s (Transform_q xf) * Rot_s (Transform_q xf)
             + Rot_c (Transform_q xf) * Rot_c (Transform_q xf) = 1"
  shows "Transform_mulVec2 xf (Transform_mulTVec2 xf v) = v"
proof -
  obtain p q where xf: "xf = Transform p q" by (cases xf)
  obtain s c where q: "q = Rot s c" by (cases q)
  obtain px py where p: "p = Vec2 px py" by (cases p)
  obtain vx vy where v: "v = Vec2 vx vy" by (cases v)
  have u: "s * s + c * c = 1" using assms xf q by simp
  have 1: "c * (c * (vx - px) + s * (vy - py)) - s * (- s * (vx - px) + c * (vy - py)) + px = vx"
  proof -
    have "c * (c * (vx - px) + s * (vy - py)) - s * (- s * (vx - px) + c * (vy - py))
          = (s * s + c * c) * (vx - px)" by (simp add: algebra_simps)
    then show ?thesis using u by simp
  qed
  have 2: "s * (c * (vx - px) + s * (vy - py)) + c * (- s * (vx - px) + c * (vy - py)) + py = vy"
  proof -
    have "s * (c * (vx - px) + s * (vy - py)) + c * (- s * (vx - px) + c * (vy - py))
          = (s * s + c * c) * (vy - py)" by (simp add: algebra_simps)
    then show ?thesis using u by simp
  qed
  show ?thesis
    using 1 2 by (simp add: xf q p v Transform_mulVec2_def Transform_mulTVec2_def Let_def)
qed

text \<open>
  C8. A distance joint constructed with a finite \<open>length\<close> in its definition returns
  that length from \<open>getLength\<close>. Constructed without it, \<open>getLength\<close> returns the
  distance between the joint's two anchors in world coordinates at construction; when
  the anchors were given as world points and the bodies' rotations are proper, that is
  the distance between the two given points.
\<close>

theorem DistanceJoint_length_roundtrip:
  "(def_length def = Some l \<longrightarrow>
      DistanceJoint_getLength (DistanceJoint_new def bodyA bodyB anchorA anchorB) = l)
   \<and> (def_length def = None \<longrightarrow>
      DistanceJoint_getLength (DistanceJoint_new def bodyA bodyB anchorA anchorB)
        = Vec2_distance
            (DistanceJoint_getAnchorA (DistanceJoint_new def bodyA bodyB anchorA anchorB) bodyA)
            (DistanceJoint_getAnchorB (DistanceJoint_new def bodyA bodyB anchorA anchorB) bodyB))
   \<and> (def_length def = None \<and> anchorA = Some wa \<and> anchorB = Some wb
        \<and> Rot_s (Transform_q (m_xf bodyA)) * Rot_s (Transform_q (m_xf bodyA))
            + Rot_c (Transform_q (m_xf bodyA)) * Rot_c (Transform_q (m_xf bodyA)) = 1
        \<and> Rot_s (Transform_q (m_xf bodyB)) * Rot_s (Transform_q (m_xf bodyB))
            + Rot_c (Transform_q (m_xf bodyB)) * Rot_c (Transform_q (m_xf bodyB)) = 1 \<longrightarrow>
      DistanceJoint_getLength (DistanceJoint_new def bodyA bodyB anchorA anchorB)
        = Vec2_distance wa wb)"
  by (auto simp add: DistanceJoint_getLength_def DistanceJoint_new_def Let_def
      DistanceJoint_getAnchorA_def DistanceJoint_getAnchorB_def
      Body_getWorldPoint_def Body_getLocalPoint_def Transform_mulVec2_mulTVec2)

theorem DistanceJoint_length_roundtrip_witness:
  "DistanceJoint_getLength
      (DistanceJoint_new (example_distance_def None (Some 7))
         (example_body (Vec2 0 0) 1 1) (example_body (Vec2 3 4) 1 1) None None) = 7
   \<and> DistanceJoint_getLength
      (DistanceJoint_new (example_distance_def None None)
         (example_body (Vec2 0 0) 1 1) (example_body (Vec2 3 4) 1 1) None None) = 5
   \<and> DistanceJoint_getLength
      (DistanceJoint_new (example_distance_def None None)
         (example_body (Vec2 0 0) 1 1) (example_body (Vec2 3 4) 1 1)
         (Some (Vec2 1 0)) (Some (Vec2 1 1))) = 1"
  using DistanceJoint_length_roundtrip [of "example_distance_def None (Some 7)" 7
          "example_body (Vec2 0 0) 1 1" "example_body (Vec2 3 4) 1 1" None None]
        DistanceJoint_length_roundtrip [of "example_distance_def None None" 0
          "example_body (Vec2 0 0) 1 1" "example_body (Vec2 3 4) 1 1" None None]
        DistanceJoint_length_roundtrip [of "example_distance_def None None" 0
          "example_body (Vec2 0 0) 1 1" "example_body (Vec2 3 4) 1 1"
          "Some (Vec2 1 0)" "Some (Vec2 1 1)" "Vec2 1 0" "Vec2 1 1"]
  by (simp add: example_distance_def_def example_body_def DistanceJoint_new_def Let_def
      DistanceJoint_getLength_def DistanceJoint_getAnchorA_def DistanceJoint_getAnchorB_def
      Body_getWorldPoint_def Body_getLocalPoint_def Transform_mulVec2_def
      Transform_mulTVec2_def Vec2_distance_def Vec2_zero_def)

section \<open>Revolute joint: enabling and setting the limits\<close>

lemma Body_setAwake_True_awake: "m_awakeFlag (Body_setAwake b True)"
  by (simp add: Body_setAwake_def)

text \<open>
  C10. \<open>enableLimit\<close> with a flag other than the current one, and \<open>setLimits\<close> with
  bounds other than the current ones (where the assertion \<open>lower \<le> upper\<close> does not
  fire), set the flag or the bounds, zero the accumulated limit impulse
  \<open>m_impulse.z\<close> and leave both bodies awake. \<open>enableLimit\<close> with the current flag,
  and \<open>setLimits\<close> with the current bounds, leave the joint and both bodies as they
  were.
\<close>

theorem RevoluteJoint_limit_setters:
  "(flag \<noteq> m_enableLimit this \<longrightarrow>
      (\<exists>j' a' b'. RevoluteJoint_enableLimit this bodyA bodyB flag = (j', a', b')
         \<and> Vec3_z (RevoluteJoint.m_impulse j') = 0 \<and> m_enableLimit j' = flag
         \<and> m_awakeFlag a' \<and> m_awakeFlag b'))
   \<and> (flag = m_enableLimit this \<longrightarrow>
      RevoluteJoint_enableLimit this bodyA bodyB flag = (this, bodyA, bodyB))
   \<and> ((lower \<noteq> m_lowerAngle this \<or> upper \<noteq> m_upperAngle this)
        \<and> (ASSERT \<longrightarrow> lower \<le> upper) \<longrightarrow>
      (\<exists>j' a' b'. RevoluteJoint_setLimits ASSERT this bodyA bodyB lower upper = Inr (j', a', b')
         \<and> Vec3_z (RevoluteJoint.m_impulse j') = 0
         \<and> m_lowerAngle j' = lower \<and> m_upperAngle j' = upper
         \<and> m_awakeFlag a' \<and> m_awakeFlag b'))
   \<and> (lower = m_lowerAngle this \<and> upper = m_upperAngle this
        \<and> (ASSERT \<longrightarrow> lower \<le> upper) \<longrightarrow>
      RevoluteJoint_setLimits ASSERT this bodyA bodyB lower upper = Inr (this, bodyA, bodyB))"
  by (auto simp add: RevoluteJoint_enableLimit_def RevoluteJoint_setLimits_def Let_def
      set_m_impulse_z_def assert_def Body_setAwake_True_awake)

theorem RevoluteJoint_limit_setters_witness:
  "(\<exists>j' a' b'. RevoluteJoint_enableLimit (example_revolute False 0 1)
        (example_body (Vec2 0 0) 1 1) (example_body (Vec2 0 0) 1 1) True = (j', a', b')
         \<and> Vec3_z (RevoluteJoint.m_impulse j') = 0 \<and> m_enableLimit j' = True
         \<and> m_awakeFlag a' \<and> m_awakeFlag b')
   \<and> RevoluteJoint_enableLimit (example_revolute True 0 1)
        (example_body (Vec2 0 0) 1 1) (example_body (Vec2 0 0) 1 1) True
       = (example_revolute True 0 1, example_body (Vec2 0 0) 1 1, example_body (Vec2 0 0) 1 1)
   \<and> (\<exists>j' a' b'. RevoluteJoint_setLimits True (example_revolute True 0 1)
        (example_body (Vec2 0 0) 1 1) (example_body (Vec2 0 0) 1 1) 0 2 = Inr (j', a', b')
         \<and> Vec3_z (RevoluteJoint.m_impulse j') = 0
         \<and> m_lowerAngle j' = 0 \<and> m_upperAngle j' = 2
         \<and> m_awakeFlag a' \<and> m_awakeFlag b')
   \<and> RevoluteJoint_setLimits True (example_revolute True 0 1)
        (example_body (Vec2 0 0) 1 1) (example_body (Vec2 0 0) 1 1) 0 1
       = Inr (example_revolute True 0 1, example_body (Vec2 0 0) 1 1,
              example_body (Vec2 0 0) 1 1)"
  using RevoluteJoint_limit_setters [of True "example_revolute False 0 1"
          "example_body (Vec2 0 0) 1 1" "example_body (Vec2 0 0) 1 1" 0 1 True]
        RevoluteJoint_limit_setters [of True "example_revolute True 0 1"
          "example_body (Vec2 0 0) 1 1" "example_body (Vec2 0 0) 1 1" 0 2 True]
        RevoluteJoint_limit_setters [of True "example_revolute True 0 1"
          "example_body (Vec2 0 0) 1 1" "example_body (Vec2 0 0) 1 1" 0 1 True]
  by (simp add: example_revolute_def)

section \<open>Velocity initialisation, block by block\<close>

text \<open>
  What each block of the three \<open>initVelocityConstraints\<close> returns, and that each
  returns: no division of theirs has a zero divisor once \<open>linearSlop\<close> is not
  negative.
\<close>

lemma DistanceJoint_effectiveMass_total:
  "(DistanceJoint_effectiveMass step j len = None) = False"
  by (simp add: DistanceJoint_effectiveMass_def Let_def recip_def)

lemma DistanceJoint_effectiveMass_SomeD:
  assumes "DistanceJoint_effectiveMass step j len = Some j'"
  shows "DistanceJoint.m_rA j' = DistanceJoint.m_rA j \<and> DistanceJoint.m_rB j' = DistanceJoint.m_rB j
     \<and> DistanceJoint.m_u j' = DistanceJoint.m_u j
     \<and> DistanceJoint.m_impulse j' = DistanceJoint.m_impulse j
     \<and> DistanceJoint.m_invMassA j' = DistanceJoint.m_invMassA j
     \<and> DistanceJoint.m_invMassB j' = DistanceJoint.m_invMassB j
     \<and> DistanceJoint.m_invIA j' = DistanceJoint.m_invIA j
     \<and> DistanceJoint.m_invIB j' = DistanceJoint.m_invIB j
     \<and> DistanceJoint.m_mass j' =
         (if DistanceJoint.m_frequencyHz j > 0
          then (if DistanceJoint.m_invMassA j
                + DistanceJoint.m_invIA j * Vec2_cross (DistanceJoint.m_rA j) (DistanceJoint.m_u j)
                    * Vec2_cross (DistanceJoint.m_rA j) (DistanceJoint.m_u j)
                + DistanceJoint.m_invMassB j
                + DistanceJoint.m_invIB j * Vec2_cross (DistanceJoint.m_rB j) (DistanceJoint.m_u j)
                    * Vec2_cross (DistanceJoint.m_rB j) (DistanceJoint.m_u j)
                + DistanceJoint.m_gamma j' \<noteq> 0
                then 1 / (DistanceJoint.m_invMassA j
                + DistanceJoint.m_invIA j * Vec2_cross (DistanceJoint.m_rA j) (DistanceJoint.m_u j)
                    * Vec2_cross (DistanceJoint.m_rA j) (DistanceJoint.m_u j)
                + DistanceJoint.m_invMassB j
                + DistanceJoint.m_invIB j * Vec2_cross (DistanceJoint.m_rB j) (DistanceJoint.m_u j)
                    * Vec2_cross (DistanceJoint.m_rB j) (DistanceJoint.m_u j)
                + DistanceJoint.m_gamma j') else 0)
          else (if DistanceJoint.m_invMassA j
                + DistanceJoint.m_invIA j * Vec2_cross (DistanceJoint.m_rA j) (DistanceJoint.m_u j)
                    * Vec2_cross (DistanceJoint.m_rA j) (DistanceJoint.m_u j)
                + DistanceJoint.m_invMassB j
                + DistanceJoint.m_invIB j * Vec2_cross (DistanceJoint.m_rB j) (DistanceJoint.m_u j)
                    * Vec2_cross (DistanceJoint.m_rB j) (DistanceJoint.m_u j) \<noteq> 0
                then 1 / (DistanceJoint.m_invMassA j
                + DistanceJoint.m_invIA j * Vec2_cross (DistanceJoint.m_rA j) (DistanceJoint.m_u j)
                    * Vec2_cross (DistanceJoint.m_rA j) (DistanceJoint.m_u j)
                + DistanceJoint.m_invMassB j
                + DistanceJoint.m_invIB j * Vec2_cross (DistanceJoint.m_rB j) (DistanceJoint.m_u j)
                    * Vec2_cross (DistanceJoint.m_rB j) (DistanceJoint.m_u j)) else 0))"
  using assms
  by (auto simp add: DistanceJoint_effectiveMass_def Let_def recip_def split: if_splits)

lemma DistanceJoint_warmStart_D:
  assumes "DistanceJoint_warmStart step j vA wA vB wB = (j', vA', wA', vB', wB')"
  shows "DistanceJoint.m_rA j' = DistanceJoint.m_rA j \<and> DistanceJoint.m_rB j' = DistanceJoint.m_rB j
     \<and> DistanceJoint.m_u j' = DistanceJoint.m_u j
     \<and> DistanceJoint.m_mass j' = DistanceJoint.m_mass j
     \<and> DistanceJoint.m_gamma j' = DistanceJoint.m_gamma j
     \<and> DistanceJoint.m_invMassA j' = DistanceJoint.m_invMassA j
     \<and> DistanceJoint.m_invMassB j' = DistanceJoint.m_invMassB j
     \<and> DistanceJoint.m_invIA j' = DistanceJoint.m_invIA j
     \<and> DistanceJoint.m_invIB j' = DistanceJoint.m_invIB j
     \<and> (if warmStarting step
         then DistanceJoint.m_impulse j' = DistanceJoint.m_impulse j * dtRatio step
            \<and> vA' = Vec2_subMul vA (DistanceJoint.m_invMassA j)
                       (Vec2_mul (DistanceJoint.m_impulse j') (DistanceJoint.m_u j))
            \<and> wA' = wA - DistanceJoint.m_invIA j
                       * Vec2_cross (DistanceJoint.m_rA j)
                           (Vec2_mul (DistanceJoint.m_impulse j') (DistanceJoint.m_u j))
            \<and> vB' = Vec2_addMul vB (DistanceJoint.m_invMassB j)
                       (Vec2_mul (DistanceJoint.m_impulse j') (DistanceJoint.m_u j))
            \<and> wB' = wB + DistanceJoint.m_invIB j
                       * Vec2_cross (DistanceJoint.m_rB j)
                           (Vec2_mul (DistanceJoint.m_impulse j') (DistanceJoint.m_u j))
         else DistanceJoint.m_impulse j' = 0 \<and> vA' = vA \<and> wA' = wA \<and> vB' = vB \<and> wB' = wB)"
  using assms
  by (auto simp add: DistanceJoint_warmStart_def Let_def split: if_splits)

lemma DistanceJoint_initAxis_total:
  assumes "0 \<le> linearSlop st"
  shows "(DistanceJoint_initAxis st this bodyA bodyB = None) = False"
  using assms by (simp add: DistanceJoint_initAxis_def Let_def recip_def)

lemma DistanceJoint_initAxis_SomeD:
  assumes "DistanceJoint_initAxis st this bodyA bodyB = Some (j, len)"
  shows "DistanceJoint.m_invMassA j = m_invMass bodyA \<and> DistanceJoint.m_invMassB j = m_invMass bodyB
     \<and> DistanceJoint.m_invIA j = m_invI bodyA \<and> DistanceJoint.m_invIB j = m_invI bodyB
     \<and> DistanceJoint.m_frequencyHz j = DistanceJoint.m_frequencyHz this
     \<and> DistanceJoint.m_impulse j = DistanceJoint.m_impulse this"
  using assms
  by (auto simp add: DistanceJoint_initAxis_def Let_def bind_eq_Some_conv split: if_splits)

lemma DistanceJoint_init_total:
  assumes "0 \<le> linearSlop st"
  shows "\<exists>j' a' b'. DistanceJoint_initVelocityConstraints st step this bodyA bodyB = Some (j', a', b')"
proof -
  obtain j len where ax: "DistanceJoint_initAxis st this bodyA bodyB = Some (j, len)"
    using DistanceJoint_initAxis_total [OF assms, of this bodyA bodyB] by fastforce
  obtain j2 where eff: "DistanceJoint_effectiveMass step j len = Some j2"
    using DistanceJoint_effectiveMass_total [of step j len] by fastforce
  show ?thesis
    by (simp add: DistanceJoint_initVelocityConstraints_def Let_def ax eff split: prod.splits)
qed

lemma DistanceJoint_init_SomeD:
  assumes run: "DistanceJoint_initVelocityConstraints st step this bodyA bodyB = Some (j', a', b')"
  shows "DistanceJoint.m_invMassA j' = m_invMass bodyA \<and> DistanceJoint.m_invMassB j' = m_invMass bodyB
     \<and> DistanceJoint.m_invIA j' = m_invI bodyA \<and> DistanceJoint.m_invIB j' = m_invI bodyB
     \<and> DistanceJoint.m_mass j' =
         (if DistanceJoint.m_frequencyHz this > 0
          then (if (m_invMass bodyA
                + m_invI bodyA * Vec2_cross (DistanceJoint.m_rA j') (DistanceJoint.m_u j')
                    * Vec2_cross (DistanceJoint.m_rA j') (DistanceJoint.m_u j')
                + m_invMass bodyB
                + m_invI bodyB * Vec2_cross (DistanceJoint.m_rB j') (DistanceJoint.m_u j')
                    * Vec2_cross (DistanceJoint.m_rB j') (DistanceJoint.m_u j')) + DistanceJoint.m_gamma j' \<noteq> 0
                then 1 / ((m_invMass bodyA
                + m_invI bodyA * Vec2_cross (DistanceJoint.m_rA j') (DistanceJoint.m_u j')
                    * Vec2_cross (DistanceJoint.m_rA j') (DistanceJoint.m_u j')
                + m_invMass bodyB
                + m_invI bodyB * Vec2_cross (DistanceJoint.m_rB j') (DistanceJoint.m_u j')
                    * Vec2_cross (DistanceJoint.m_rB j') (DistanceJoint.m_u j')) + DistanceJoint.m_gamma j') else 0)
          else (if (m_invMass bodyA
                + m_invI bodyA * Vec2_cross (DistanceJoint.m_rA j') (DistanceJoint.m_u j')
                    * Vec2_cross (DistanceJoint.m_rA j') (DistanceJoint.m_u j')
                + m_invMass bodyB
                + m_invI bodyB * Vec2_cross (DistanceJoint.m_rB j') (DistanceJoint.m_u j')
                    * Vec2_cross (DistanceJoint.m_rB j') (DistanceJoint.m_u j')) \<noteq> 0
                then 1 / ((m_invMass bodyA
                + m_invI bodyA * Vec2_cross (DistanceJoint.m_rA j') (DistanceJoint.m_u j')
                    * Vec2_cross (DistanceJoint.m_rA j') (DistanceJoint.m_u j')
                + m_invMass bodyB
                + m_invI bodyB * Vec2_cross (DistanceJoint.m_rB j') (DistanceJoint.m_u j')
                    * Vec2_cross (DistanceJoint.m_rB j') (DistanceJoint.m_u j'))) else 0))
     \<and> (if warmStarting step
         then DistanceJoint.m_impulse j' = DistanceJoint.m_impulse this * dtRatio step
            \<and> c_velocity a' = Velocity
                 (Vec2_subMul (Velocity_v (c_velocity bodyA)) (m_invMass bodyA)
                    (Vec2_mul (DistanceJoint.m_impulse j') (DistanceJoint.m_u j')))
                 (Velocity_w (c_velocity bodyA) - m_invI bodyA
                    * Vec2_cross (DistanceJoint.m_rA j')
                        (Vec2_mul (DistanceJoint.m_impulse j') (DistanceJoint.m_u j')))
            \<and> c_velocity b' = Velocity
                 (Vec2_addMul (Velocity_v (c_velocity bodyB)) (m_invMass bodyB)
                    (Vec2_mul (DistanceJoint.m_impulse j') (DistanceJoint.m_u j')))
                 (Velocity_w (c_velocity bodyB) + m_invI bodyB
                    * Vec2_cross (DistanceJoint.m_rB j')
                        (Vec2_mul (DistanceJoint.m_impulse j') (DistanceJoint.m_u j')))
         else DistanceJoint.m_impulse j' = 0
            \<and> c_velocity a' = c_velocity bodyA \<and> c_velocity b' = c_velocity bodyB)"
proof -
  from run obtain j3 len j4 where
    ax: "DistanceJoint_initAxis st this bodyA bodyB = Some (j3, len)"
    and eff: "DistanceJoint_effectiveMass step j3 len = Some j4"
    and r: "(case DistanceJoint_warmStart step j4 (Velocity_v (c_velocity bodyA))
               (Velocity_w (c_velocity bodyA)) (Velocity_v (c_velocity bodyB))
               (Velocity_w (c_velocity bodyB)) of
             (this, vA, wA, vB, wB) \<Rightarrow>
               Some (this, bodyA\<lparr>c_velocity := Velocity vA wA\<rparr>,
                     bodyB\<lparr>c_velocity := Velocity vB wB\<rparr>)) = Some (j', a', b')"
    by (auto simp add: DistanceJoint_initVelocityConstraints_def Let_def bind_eq_Some_conv)
  obtain j5 vA' wA' vB' wB' where
    ws: "DistanceJoint_warmStart step j4 (Velocity_v (c_velocity bodyA))
               (Velocity_w (c_velocity bodyA)) (Velocity_v (c_velocity bodyB))
               (Velocity_w (c_velocity bodyB)) = (j5, vA', wA', vB', wB')"
    by (rule prod_cases5)
  from r ws have res: "j' = j5" "a' = bodyA\<lparr>c_velocity := Velocity vA' wA'\<rparr>"
      "b' = bodyB\<lparr>c_velocity := Velocity vB' wB'\<rparr>"
    by simp_all
  from DistanceJoint_initAxis_SomeD [OF ax] DistanceJoint_effectiveMass_SomeD [OF eff]
    DistanceJoint_warmStart_D [OF ws]
  show ?thesis
    by (simp add: res split: if_splits)
qed

lemma PulleyJoint_initMass_total:
  assumes "0 \<le> linearSlop st"
  shows "(PulleyJoint_initMass st this bodyA bodyB = None) = False"
  using assms by (simp add: PulleyJoint_initMass_def Let_def recip_def)

lemma PulleyJoint_initMass_SomeD:
  assumes "PulleyJoint_initMass st this bodyA bodyB = Some j"
  shows "PulleyJoint.m_invMassA j = m_invMass bodyA \<and> PulleyJoint.m_invMassB j = m_invMass bodyB
     \<and> PulleyJoint.m_invIA j = m_invI bodyA \<and> PulleyJoint.m_invIB j = m_invI bodyB
     \<and> PulleyJoint.m_impulse j = PulleyJoint.m_impulse this
     \<and> m_ratio j = m_ratio this
     \<and> PulleyJoint.m_mass j =
         (if m_invMass bodyA
               + m_invI bodyA * Vec2_cross (PulleyJoint.m_rA j) (m_uA j)
                   * Vec2_cross (PulleyJoint.m_rA j) (m_uA j)
               + m_ratio this * m_ratio this
                   * (m_invMass bodyB
                      + m_invI bodyB * Vec2_cross (PulleyJoint.m_rB j) (m_uB j)
                          * Vec2_cross (PulleyJoint.m_rB j) (m_uB j)) > 0
          then 1 / (m_invMass bodyA
               + m_invI bodyA * Vec2_cross (PulleyJoint.m_rA j) (m_uA j)
                   * Vec2_cross (PulleyJoint.m_rA j) (m_uA j)
               + m_ratio this * m_ratio this
                   * (m_invMass bodyB
                      + m_invI bodyB * Vec2_cross (PulleyJoint.m_rB j) (m_uB j)
                          * Vec2_cross (PulleyJoint.m_rB j) (m_uB j)))
          else m_invMass bodyA
               + m_invI bodyA * Vec2_cross (PulleyJoint.m_rA j) (m_uA j)
                   * Vec2_cross (PulleyJoint.m_rA j) (m_uA j)
               + m_ratio this * m_ratio this
                   * (m_invMass bodyB
                      + m_invI bodyB * Vec2_cross (PulleyJoint.m_rB j) (m_uB j)
                          * Vec2_cross (PulleyJoint.m_rB j) (m_uB j)))"
  using assms
  by (auto simp add: PulleyJoint_initMass_def Let_def bind_eq_Some_conv recip_def
      split: if_splits)

lemma PulleyJoint_warmStart_D:
  assumes "PulleyJoint_warmStart step j vA wA vB wB = (j', vA', wA', vB', wB')"
  shows "PulleyJoint.m_rA j' = PulleyJoint.m_rA j \<and> PulleyJoint.m_rB j' = PulleyJoint.m_rB j
     \<and> m_uA j' = m_uA j \<and> m_uB j' = m_uB j
     \<and> PulleyJoint.m_mass j' = PulleyJoint.m_mass j
     \<and> m_ratio j' = m_ratio j
     \<and> (if warmStarting step
         then PulleyJoint.m_impulse j' = PulleyJoint.m_impulse j * dtRatio step
            \<and> vA' = Vec2_addMul vA (PulleyJoint.m_invMassA j)
                       (Vec2_mul (- PulleyJoint.m_impulse j') (m_uA j))
            \<and> wA' = wA + PulleyJoint.m_invIA j
                       * Vec2_cross (PulleyJoint.m_rA j)
                           (Vec2_mul (- PulleyJoint.m_impulse j') (m_uA j))
            \<and> vB' = Vec2_addMul vB (PulleyJoint.m_invMassB j)
                       (Vec2_mul (- m_ratio j * PulleyJoint.m_impulse j') (m_uB j))
            \<and> wB' = wB + PulleyJoint.m_invIB j
                       * Vec2_cross (PulleyJoint.m_rB j)
                           (Vec2_mul (- m_ratio j * PulleyJoint.m_impulse j') (m_uB j))
         else PulleyJoint.m_impulse j' = 0 \<and> vA' = vA \<and> wA' = wA \<and> vB' = vB \<and> wB' = wB)"
  using assms
  by (auto simp add: PulleyJoint_warmStart_def Let_def split: if_splits)

lemma PulleyJoint_init_total:
  assumes "0 \<le> linearSlop st"
  shows "\<exists>j' a' b'. PulleyJoint_initVelocityConstraints st step this bodyA bodyB = Some (j', a', b')"
proof -
  obtain j where ax: "PulleyJoint_initMass st this bodyA bodyB = Some j"
    using PulleyJoint_initMass_total [OF assms, of this bodyA bodyB] by fastforce
  show ?thesis
    by (simp add: PulleyJoint_initVelocityConstraints_def Let_def ax split: prod.splits)
qed

lemma PulleyJoint_init_SomeD:
  assumes run: "PulleyJoint_initVelocityConstraints st step this bodyA bodyB = Some (j', a', b')"
  shows "PulleyJoint.m_mass j' =
         (if m_invMass bodyA
               + m_invI bodyA * Vec2_cross (PulleyJoint.m_rA j') (m_uA j')
                   * Vec2_cross (PulleyJoint.m_rA j') (m_uA j')
               + m_ratio this * m_ratio this
                   * (m_invMass bodyB
                      + m_invI bodyB * Vec2_cross (PulleyJoint.m_rB j') (m_uB j')
                          * Vec2_cross (PulleyJoint.m_rB j') (m_uB j')) > 0
          then 1 / (m_invMass bodyA
               + m_invI bodyA * Vec2_cross (PulleyJoint.m_rA j') (m_uA j')
                   * Vec2_cross (PulleyJoint.m_rA j') (m_uA j')
               + m_ratio this * m_ratio this
                   * (m_invMass bodyB
                      + m_invI bodyB * Vec2_cross (PulleyJoint.m_rB j') (m_uB j')
                          * Vec2_cross (PulleyJoint.m_rB j') (m_uB j')))
          else m_invMass bodyA
               + m_invI bodyA * Vec2_cross (PulleyJoint.m_rA j') (m_uA j')
                   * Vec2_cross (PulleyJoint.m_rA j') (m_uA j')
               + m_ratio this * m_ratio this
                   * (m_invMass bodyB
                      + m_invI bodyB * Vec2_cross (PulleyJoint.m_rB j') (m_uB j')
                          * Vec2_cross (PulleyJoint.m_rB j') (m_uB j')))
     \<and> (if warmStarting step
         then PulleyJoint.m_impulse j' = PulleyJoint.m_impulse this * dtRatio step
            \<and> c_velocity a' = Velocity
                 (Vec2_addMul (Velocity_v (c_velocity bodyA)) (m_invMass bodyA)
                    (Vec2_mul (- PulleyJoint.m_impulse j') (m_uA j')))
                 (Velocity_w (c_velocity bodyA) + m_invI bodyA
                    * Vec2_cross (PulleyJoint.m_rA j')
                        (Vec2_mul (- PulleyJoint.m_impulse j') (m_uA j')))
            \<and> c_velocity b' = Velocity
                 (Vec2_addMul (Velocity_v (c_velocity bodyB)) (m_invMass bodyB)
                    (Vec2_mul (- m_ratio this * PulleyJoint.m_impulse j') (m_uB j')))
                 (Velocity_w (c_velocity bodyB) + m_invI bodyB
                    * Vec2_cross (PulleyJoint.m_rB j')
                        (Vec2_mul (- m_ratio this * PulleyJoint.m_impulse j') (m_uB j')))
         else PulleyJoint.m_impulse j' = 0
            \<and> c_velocity a' = c_velocity bodyA \<and> c_velocity b' = c_velocity bodyB)"
proof -
  from run obtain j3 where
    ax: "PulleyJoint_initMass st this bodyA bodyB = Some j3"
    and r: "(case PulleyJoint_warmStart step j3 (Velocity_v (c_velocity bodyA))
               (Velocity_w (c_velocity bodyA)) (Velocity_v (c_velocity bodyB))
               (Velocity_w (c_velocity bodyB)) of
             (this, vA, wA, vB, wB) \<Rightarrow>
               Some (this, bodyA\<lparr>c_velocity := Velocity vA wA\<rparr>,
                     bodyB\<lparr>c_velocity := Velocity vB wB\<rparr>)) = Some (j', a', b')"
    by (auto simp add: PulleyJoint_initVelocityConstraints_def Let_def bind_eq_Some_conv)
  obtain j5 vA' wA' vB' wB' where
    ws: "PulleyJoint_warmStart step j3 (Velocity_v (c_velocity bodyA))
               (Velocity_w (c_velocity bodyA)) (Velocity_v (c_velocity bodyB))
               (Velocity_w (c_velocity bodyB)) = (j5, vA', wA', vB', wB')"
    by (rule prod_cases5)
  from r ws have res: "j' = j5" "a' = bodyA\<lparr>c_velocity := Velocity vA' wA'\<rparr>"
      "b' = bodyB\<lparr>c_velocity := Velocity vB' wB'\<rparr>"
    by simp_all
  from PulleyJoint_initMass_SomeD [OF ax] PulleyJoint_warmStart_D [OF ws]
  show ?thesis
    by (simp add: res split: if_splits)
qed

lemma RevoluteJoint_initMass_total:
  "(RevoluteJoint_initMass this bodyA bodyB = None) = False"
  by (simp add: RevoluteJoint_initMass_def Let_def recip_def)

lemma RevoluteJoint_initMass_SomeD:
  assumes "RevoluteJoint_initMass this bodyA bodyB = Some j"
  shows "RevoluteJoint.m_invMassA j = m_invMass bodyA \<and> RevoluteJoint.m_invMassB j = m_invMass bodyB
     \<and> RevoluteJoint.m_invIA j = m_invI bodyA \<and> RevoluteJoint.m_invIB j = m_invI bodyB
     \<and> Vec3_x (RevoluteJoint.m_impulse j) = Vec3_x (RevoluteJoint.m_impulse this)
     \<and> Vec3_y (RevoluteJoint.m_impulse j) = Vec3_y (RevoluteJoint.m_impulse this)
     \<and> Vec3_z (RevoluteJoint.m_impulse j) = Vec3_z (RevoluteJoint.m_impulse this)
     \<and> m_enableLimit j = m_enableLimit this \<and> m_limitState j = m_limitState this
     \<and> m_referenceAngle j = m_referenceAngle this
     \<and> m_lowerAngle j = m_lowerAngle this \<and> m_upperAngle j = m_upperAngle this
     \<and> m_motorImpulse j =
         (if m_enableMotor this = False \<or> m_invI bodyA + m_invI bodyB = 0
          then 0 else m_motorImpulse this)
     \<and> m_motorMass j =
         (if m_invI bodyA + m_invI bodyB > 0 then 1 / (m_invI bodyA + m_invI bodyB)
          else m_invI bodyA + m_invI bodyB)"
  using assms
  by (auto simp add: RevoluteJoint_initMass_def Let_def bind_eq_Some_conv recip_def
      split: if_splits)

lemma RevoluteJoint_updateLimitState_D:
  "RevoluteJoint.m_invMassA (RevoluteJoint_updateLimitState st j aA aB fr) = RevoluteJoint.m_invMassA j
   \<and> RevoluteJoint.m_invMassB (RevoluteJoint_updateLimitState st j aA aB fr) = RevoluteJoint.m_invMassB j
   \<and> RevoluteJoint.m_invIA (RevoluteJoint_updateLimitState st j aA aB fr) = RevoluteJoint.m_invIA j
   \<and> RevoluteJoint.m_invIB (RevoluteJoint_updateLimitState st j aA aB fr) = RevoluteJoint.m_invIB j
   \<and> m_motorImpulse (RevoluteJoint_updateLimitState st j aA aB fr) = m_motorImpulse j
   \<and> m_motorMass (RevoluteJoint_updateLimitState st j aA aB fr) = m_motorMass j
   \<and> Vec3_x (RevoluteJoint.m_impulse (RevoluteJoint_updateLimitState st j aA aB fr))
        = Vec3_x (RevoluteJoint.m_impulse j)
   \<and> Vec3_y (RevoluteJoint.m_impulse (RevoluteJoint_updateLimitState st j aA aB fr))
        = Vec3_y (RevoluteJoint.m_impulse j)
   \<and> Vec3_z (RevoluteJoint.m_impulse (RevoluteJoint_updateLimitState st j aA aB fr))
        = (if m_enableLimit j \<and> fr = False
              \<and> \<not> Math_abs (m_upperAngle j - m_lowerAngle j) < 2 * angularSlop st
              \<and> (if aB - aA - m_referenceAngle j \<le> m_lowerAngle j
                  then m_limitState j \<noteq> atLowerLimit
                  else if aB - aA - m_referenceAngle j \<ge> m_upperAngle j
                  then m_limitState j \<noteq> atUpperLimit
                  else True)
           then 0 else Vec3_z (RevoluteJoint.m_impulse j))"
  by (simp add: RevoluteJoint_updateLimitState_def set_m_impulse_z_def Let_def)

lemma RevoluteJoint_warmStart_D:
  assumes "RevoluteJoint_warmStart step j vA wA vB wB = (j', vA', wA', vB', wB')"
  shows "RevoluteJoint.m_rA j' = RevoluteJoint.m_rA j \<and> RevoluteJoint.m_rB j' = RevoluteJoint.m_rB j
     \<and> m_motorMass j' = m_motorMass j
     \<and> (if warmStarting step
         then RevoluteJoint.m_impulse j' = Vec3_mul (RevoluteJoint.m_impulse j) (dtRatio step)
            \<and> m_motorImpulse j' = m_motorImpulse j * dtRatio step
            \<and> vA' = Vec2_subMul vA (RevoluteJoint.m_invMassA j)
                       (Vec2 (Vec3_x (RevoluteJoint.m_impulse j')) (Vec3_y (RevoluteJoint.m_impulse j')))
            \<and> wA' = wA - RevoluteJoint.m_invIA j
                       * (Vec2_cross (RevoluteJoint.m_rA j)
                           (Vec2 (Vec3_x (RevoluteJoint.m_impulse j')) (Vec3_y (RevoluteJoint.m_impulse j')))
                          + m_motorImpulse j' + Vec3_z (RevoluteJoint.m_impulse j'))
            \<and> vB' = Vec2_addMul vB (RevoluteJoint.m_invMassB j)
                       (Vec2 (Vec3_x (RevoluteJoint.m_impulse j')) (Vec3_y (RevoluteJoint.m_impulse j')))
            \<and> wB' = wB + RevoluteJoint.m_invIB j
                       * (Vec2_cross (RevoluteJoint.m_rB j)
                           (Vec2 (Vec3_x (RevoluteJoint.m_impulse j')) (Vec3_y (RevoluteJoint.m_impulse j')))
                          + m_motorImpulse j' + Vec3_z (RevoluteJoint.m_impulse j'))
         else RevoluteJoint.m_impulse j' = Vec3_zero \<and> m_motorImpulse j' = 0
            \<and> vA' = vA \<and> wA' = wA \<and> vB' = vB \<and> wB' = wB)"
  using assms
  by (auto simp add: RevoluteJoint_warmStart_def Let_def split: if_splits)

lemma RevoluteJoint_init_total:
  "\<exists>j' a' b'. RevoluteJoint_initVelocityConstraints st step this bodyA bodyB = Some (j', a', b')"
proof -
  obtain j where ax: "RevoluteJoint_initMass this bodyA bodyB = Some j"
    using RevoluteJoint_initMass_total [of this bodyA bodyB] by fastforce
  show ?thesis
    by (simp add: RevoluteJoint_initVelocityConstraints_def Let_def ax split: prod.splits)
qed

lemma RevoluteJoint_init_SomeD:
  assumes run: "RevoluteJoint_initVelocityConstraints st step this bodyA bodyB = Some (j', a', b')"
  shows "m_motorMass j' =
         (if m_invI bodyA + m_invI bodyB > 0 then 1 / (m_invI bodyA + m_invI bodyB)
          else m_invI bodyA + m_invI bodyB)
     \<and> (if warmStarting step
         then Vec3_x (RevoluteJoint.m_impulse j')
                = Vec3_x (RevoluteJoint.m_impulse this) * dtRatio step
            \<and> Vec3_y (RevoluteJoint.m_impulse j')
                = Vec3_y (RevoluteJoint.m_impulse this) * dtRatio step
            \<and> Vec3_z (RevoluteJoint.m_impulse j') =
                (if m_enableLimit this \<and> m_invI bodyA + m_invI bodyB \<noteq> 0
                    \<and> \<not> Math_abs (m_upperAngle this - m_lowerAngle this) < 2 * angularSlop st
                    \<and> (if Position_a (c_position bodyB) - Position_a (c_position bodyA)
                              - m_referenceAngle this \<le> m_lowerAngle this
                        then m_limitState this \<noteq> atLowerLimit
                        else if Position_a (c_position bodyB) - Position_a (c_position bodyA)
                              - m_referenceAngle this \<ge> m_upperAngle this
                        then m_limitState this \<noteq> atUpperLimit
                        else True)
                 then 0 else Vec3_z (RevoluteJoint.m_impulse this) * dtRatio step)
            \<and> m_motorImpulse j' =
                (if m_enableMotor this = False \<or> m_invI bodyA + m_invI bodyB = 0
                 then 0 else m_motorImpulse this * dtRatio step)
            \<and> c_velocity a' = Velocity
                 (Vec2_subMul (Velocity_v (c_velocity bodyA)) (m_invMass bodyA)
                    (Vec2 (Vec3_x (RevoluteJoint.m_impulse j')) (Vec3_y (RevoluteJoint.m_impulse j'))))
                 (Velocity_w (c_velocity bodyA) - m_invI bodyA
                    * (Vec2_cross (RevoluteJoint.m_rA j')
                         (Vec2 (Vec3_x (RevoluteJoint.m_impulse j')) (Vec3_y (RevoluteJoint.m_impulse j')))
                       + m_motorImpulse j' + Vec3_z (RevoluteJoint.m_impulse j')))
            \<and> c_velocity b' = Velocity
                 (Vec2_addMul (Velocity_v (c_velocity bodyB)) (m_invMass bodyB)
                    (Vec2 (Vec3_x (RevoluteJoint.m_impulse j')) (Vec3_y (RevoluteJoint.m_impulse j'))))
                 (Velocity_w (c_velocity bodyB) + m_invI bodyB
                    * (Vec2_cross (RevoluteJoint.m_rB j')
                         (Vec2 (Vec3_x (RevoluteJoint.m_impulse j')) (Vec3_y (RevoluteJoint.m_impulse j')))
                       + m_motorImpulse j' + Vec3_z (RevoluteJoint.m_impulse j')))
         else RevoluteJoint.m_impulse j' = Vec3_zero \<and> m_motorImpulse j' = 0
            \<and> c_velocity a' = c_velocity bodyA \<and> c_velocity b' = c_velocity bodyB)"
proof -
  from run obtain j1 where
    ax: "RevoluteJoint_initMass this bodyA bodyB = Some j1"
    and r: "(case RevoluteJoint_warmStart step
               (RevoluteJoint_updateLimitState st j1 (Position_a (c_position bodyA))
                  (Position_a (c_position bodyB))
                  (RevoluteJoint.m_invIA j1 + RevoluteJoint.m_invIB j1 = 0))
               (Velocity_v (c_velocity bodyA))
               (Velocity_w (c_velocity bodyA)) (Velocity_v (c_velocity bodyB))
               (Velocity_w (c_velocity bodyB)) of
             (this, vA, wA, vB, wB) \<Rightarrow>
               Some (this, bodyA\<lparr>c_velocity := Velocity vA wA\<rparr>,
                     bodyB\<lparr>c_velocity := Velocity vB wB\<rparr>)) = Some (j', a', b')"
    by (auto simp add: RevoluteJoint_initVelocityConstraints_def Let_def bind_eq_Some_conv)
  define j2 where "j2 = RevoluteJoint_updateLimitState st j1 (Position_a (c_position bodyA))
                  (Position_a (c_position bodyB))
                  (RevoluteJoint.m_invIA j1 + RevoluteJoint.m_invIB j1 = 0)"
  obtain j5 vA' wA' vB' wB' where
    ws: "RevoluteJoint_warmStart step j2 (Velocity_v (c_velocity bodyA))
               (Velocity_w (c_velocity bodyA)) (Velocity_v (c_velocity bodyB))
               (Velocity_w (c_velocity bodyB)) = (j5, vA', wA', vB', wB')"
    by (rule prod_cases5)
  from r ws have res: "j' = j5" "a' = bodyA\<lparr>c_velocity := Velocity vA' wA'\<rparr>"
      "b' = bodyB\<lparr>c_velocity := Velocity vB' wB'\<rparr>"
    by (simp_all add: j2_def)
  have u: "RevoluteJoint.m_invMassA j2 = RevoluteJoint.m_invMassA j1
   \<and> RevoluteJoint.m_invMassB j2 = RevoluteJoint.m_invMassB j1
   \<and> RevoluteJoint.m_invIA j2 = RevoluteJoint.m_invIA j1
   \<and> RevoluteJoint.m_invIB j2 = RevoluteJoint.m_invIB j1
   \<and> m_motorImpulse j2 = m_motorImpulse j1
   \<and> m_motorMass j2 = m_motorMass j1
   \<and> Vec3_x (RevoluteJoint.m_impulse j2) = Vec3_x (RevoluteJoint.m_impulse j1)
   \<and> Vec3_y (RevoluteJoint.m_impulse j2) = Vec3_y (RevoluteJoint.m_impulse j1)
   \<and> Vec3_z (RevoluteJoint.m_impulse j2)
        = (if m_enableLimit j1 \<and> (RevoluteJoint.m_invIA j1 + RevoluteJoint.m_invIB j1 = 0) = False
              \<and> \<not> Math_abs (m_upperAngle j1 - m_lowerAngle j1) < 2 * angularSlop st
              \<and> (if Position_a (c_position bodyB) - Position_a (c_position bodyA)
                        - m_referenceAngle j1 \<le> m_lowerAngle j1
                  then m_limitState j1 \<noteq> atLowerLimit
                  else if Position_a (c_position bodyB) - Position_a (c_position bodyA)
                        - m_referenceAngle j1 \<ge> m_upperAngle j1
                  then m_limitState j1 \<noteq> atUpperLimit
                  else True)
           then 0 else Vec3_z (RevoluteJoint.m_impulse j1))"
    unfolding j2_def by (rule RevoluteJoint_updateLimitState_D)
  from RevoluteJoint_initMass_SomeD [OF ax] u RevoluteJoint_warmStart_D [OF ws]
  show ?thesis
    by (auto simp add: res Vec3_mul_def split: if_splits)
qed

lemma DistanceJoint_init_warmD:
  assumes run: "DistanceJoint_initVelocityConstraints st step this bodyA bodyB = Some (j', a', b')"
  shows "(if warmStarting step
         then DistanceJoint.m_impulse j' = DistanceJoint.m_impulse this * dtRatio step
            \<and> c_velocity a' = Velocity
                 (Vec2_subMul (Velocity_v (c_velocity bodyA)) (m_invMass bodyA)
                    (Vec2_mul (DistanceJoint.m_impulse j') (DistanceJoint.m_u j')))
                 (Velocity_w (c_velocity bodyA) - m_invI bodyA
                    * Vec2_cross (DistanceJoint.m_rA j')
                        (Vec2_mul (DistanceJoint.m_impulse j') (DistanceJoint.m_u j')))
            \<and> c_velocity b' = Velocity
                 (Vec2_addMul (Velocity_v (c_velocity bodyB)) (m_invMass bodyB)
                    (Vec2_mul (DistanceJoint.m_impulse j') (DistanceJoint.m_u j')))
                 (Velocity_w (c_velocity bodyB) + m_invI bodyB
                    * Vec2_cross (DistanceJoint.m_rB j')
                        (Vec2_mul (DistanceJoint.m_impulse j') (DistanceJoint.m_u j')))
         else DistanceJoint.m_impulse j' = 0
            \<and> c_velocity a' = c_velocity bodyA \<and> c_velocity b' = c_velocity bodyB)"
  using DistanceJoint_init_SomeD [OF run] by (elim conjE) assumption

lemma DistanceJoint_init_massD:
  assumes run: "DistanceJoint_initVelocityConstraints st step this bodyA bodyB = Some (j', a', b')"
  shows "DistanceJoint.m_mass j' =
         (if DistanceJoint.m_frequencyHz this > 0
          then (if (m_invMass bodyA
                + m_invI bodyA * Vec2_cross (DistanceJoint.m_rA j') (DistanceJoint.m_u j')
                    * Vec2_cross (DistanceJoint.m_rA j') (DistanceJoint.m_u j')
                + m_invMass bodyB
                + m_invI bodyB * Vec2_cross (DistanceJoint.m_rB j') (DistanceJoint.m_u j')
                    * Vec2_cross (DistanceJoint.m_rB j') (DistanceJoint.m_u j')) + DistanceJoint.m_gamma j' \<noteq> 0
                then 1 / ((m_invMass bodyA
                + m_invI bodyA * Vec2_cross (DistanceJoint.m_rA j') (DistanceJoint.m_u j')
                    * Vec2_cross (DistanceJoint.m_rA j') (DistanceJoint.m_u j')
                + m_invMass bodyB
                + m_invI bodyB * Vec2_cross (DistanceJoint.m_rB j') (DistanceJoint.m_u j')
                    * Vec2_cross (DistanceJoint.m_rB j') (DistanceJoint.m_u j')) + DistanceJoint.m_gamma j') else 0)
          else (if (m_invMass bodyA
                + m_invI bodyA * Vec2_cross (DistanceJoint.m_rA j') (DistanceJoint.m_u j')
                    * Vec2_cross (DistanceJoint.m_rA j') (DistanceJoint.m_u j')
                + m_invMass bodyB
                + m_invI bodyB * Vec2_cross (DistanceJoint.m_rB j') (DistanceJoint.m_u j')
                    * Vec2_cross (DistanceJoint.m_rB j') (DistanceJoint.m_u j')) \<noteq> 0
                then 1 / ((m_invMass bodyA
                + m_invI bodyA * Vec2_cross (DistanceJoint.m_rA j') (DistanceJoint.m_u j')
                    * Vec2_cross (DistanceJoint.m_rA j') (DistanceJoint.m_u j')
                + m_invMass bodyB
                + m_invI bodyB * Vec2_cross (DistanceJoint.m_rB j') (DistanceJoint.m_u j')
                    * Vec2_cross (DistanceJoint.m_rB j') (DistanceJoint.m_u j'))) else 0))"
  using DistanceJoint_init_SomeD [OF run] by (elim conjE) assumption

lemma PulleyJoint_init_warmD:
  assumes run: "PulleyJoint_initVelocityConstraints st step this bodyA bodyB = Some (j', a', b')"
  shows "(if warmStarting step
         then PulleyJoint.m_impulse j' = PulleyJoint.m_impulse this * dtRatio step
            \<and> c_velocity a' = Velocity
                 (Vec2_addMul (Velocity_v (c_velocity bodyA)) (m_invMass bodyA)
                    (Vec2_mul (- PulleyJoint.m_impulse j') (m_uA j')))
                 (Velocity_w (c_velocity bodyA) + m_invI bodyA
                    * Vec2_cross (PulleyJoint.m_rA j')
                        (Vec2_mul (- PulleyJoint.m_impulse j') (m_uA j')))
            \<and> c_velocity b' = Velocity
                 (Vec2_addMul (Velocity_v (c_velocity bodyB)) (m_invMass bodyB)
                    (Vec2_mul (- m_ratio this * PulleyJoint.m_impulse j') (m_uB j')))
                 (Velocity_w (c_velocity bodyB) + m_invI bodyB
                    * Vec2_cross (PulleyJoint.m_rB j')
                        (Vec2_mul (- m_ratio this * PulleyJoint.m_impulse j') (m_uB j')))
         else PulleyJoint.m_impulse j' = 0
            \<and> c_velocity a' = c_velocity bodyA \<and> c_velocity b' = c_velocity bodyB)"
  using PulleyJoint_init_SomeD [OF run] by (elim conjE) assumption

lemma PulleyJoint_init_massD:
  assumes run: "PulleyJoint_initVelocityConstraints st step this bodyA bodyB = Some (j', a', b')"
  shows "PulleyJoint.m_mass j' =
         (if m_invMass bodyA
               + m_invI bodyA * Vec2_cross (PulleyJoint.m_rA j') (m_uA j')
                   * Vec2_cross (PulleyJoint.m_rA j') (m_uA j')
               + m_ratio this * m_ratio this
                   * (m_invMass bodyB
                      + m_invI bodyB * Vec2_cross (PulleyJoint.m_rB j') (m_uB j')
                          * Vec2_cross (PulleyJoint.m_rB j') (m_uB j')) > 0
          then 1 / (m_invMass bodyA
               + m_invI bodyA * Vec2_cross (PulleyJoint.m_rA j') (m_uA j')
                   * Vec2_cross (PulleyJoint.m_rA j') (m_uA j')
               + m_ratio this * m_ratio this
                   * (m_invMass bodyB
                      + m_invI bodyB * Vec2_cross (PulleyJoint.m_rB j') (m_uB j')
                          * Vec2_cross (PulleyJoint.m_rB j') (m_uB j')))
          else m_invMass bodyA
               + m_invI bodyA * Vec2_cross (PulleyJoint.m_rA j') (m_uA j')
                   * Vec2_cross (PulleyJoint.m_rA j') (m_uA j')
               + m_ratio this * m_ratio this
                   * (m_invMass bodyB
                      + m_invI bodyB * Vec2_cross (PulleyJoint.m_rB j') (m_uB j')
                          * Vec2_cross (PulleyJoint.m_rB j') (m_uB j')))"
  using PulleyJoint_init_SomeD [OF run] by (elim conjE) assumption

lemma RevoluteJoint_init_warmD:
  assumes run: "RevoluteJoint_initVelocityConstraints st step this bodyA bodyB = Some (j', a', b')"
  shows "(if warmStarting step
         then Vec3_x (RevoluteJoint.m_impulse j')
                = Vec3_x (RevoluteJoint.m_impulse this) * dtRatio step
            \<and> Vec3_y (RevoluteJoint.m_impulse j')
                = Vec3_y (RevoluteJoint.m_impulse this) * dtRatio step
            \<and> Vec3_z (RevoluteJoint.m_impulse j') =
                (if m_enableLimit this \<and> m_invI bodyA + m_invI bodyB \<noteq> 0
                    \<and> \<not> Math_abs (m_upperAngle this - m_lowerAngle this) < 2 * angularSlop st
                    \<and> (if Position_a (c_position bodyB) - Position_a (c_position bodyA)
                              - m_referenceAngle this \<le> m_lowerAngle this
                        then m_limitState this \<noteq> atLowerLimit
                        else if Position_a (c_position bodyB) - Position_a (c_position bodyA)
                              - m_referenceAngle this \<ge> m_upperAngle this
                        then m_limitState this \<noteq> atUpperLimit
                        else True)
                 then 0 else Vec3_z (RevoluteJoint.m_impulse this) * dtRatio step)
            \<and> m_motorImpulse j' =
                (if m_enableMotor this = False \<or> m_invI bodyA + m_invI bodyB = 0
                 then 0 else m_motorImpulse this * dtRatio step)
            \<and> c_velocity a' = Velocity
                 (Vec2_subMul (Velocity_v (c_velocity bodyA)) (m_invMass bodyA)
                    (Vec2 (Vec3_x (RevoluteJoint.m_impulse j')) (Vec3_y (RevoluteJoint.m_impulse j'))))
                 (Velocity_w (c_velocity bodyA) - m_invI bodyA
                    * (Vec2_cross (RevoluteJoint.m_rA j')
                         (Vec2 (Vec3_x (RevoluteJoint.m_impulse j')) (Vec3_y (RevoluteJoint.m_impulse j')))
                       + m_motorImpulse j' + Vec3_z (RevoluteJoint.m_impulse j')))
            \<and> c_velocity b' = Velocity
                 (Vec2_addMul (Velocity_v (c_velocity bodyB)) (m_invMass bodyB)
                    (Vec2 (Vec3_x (RevoluteJoint.m_impulse j')) (Vec3_y (RevoluteJoint.m_impulse j'))))
                 (Velocity_w (c_velocity bodyB) + m_invI bodyB
                    * (Vec2_cross (RevoluteJoint.m_rB j')
                         (Vec2 (Vec3_x (RevoluteJoint.m_impulse j')) (Vec3_y (RevoluteJoint.m_impulse j')))
                       + m_motorImpulse j' + Vec3_z (RevoluteJoint.m_impulse j')))
         else RevoluteJoint.m_impulse j' = Vec3_zero \<and> m_motorImpulse j' = 0
            \<and> c_velocity a' = c_velocity bodyA \<and> c_velocity b' = c_velocity bodyB)"
  using RevoluteJoint_init_SomeD [OF run] by (elim conjE) assumption

lemma RevoluteJoint_init_massD:
  assumes run: "RevoluteJoint_initVelocityConstraints st step this bodyA bodyB = Some (j', a', b')"
  shows "m_motorMass j' =
         (if m_invI bodyA + m_invI bodyB > 0 then 1 / (m_invI bodyA + m_invI bodyB)
          else m_invI bodyA + m_invI bodyB)"
  using RevoluteJoint_init_SomeD [OF run] by (elim conjE) assumption

text \<open>The definitions unfolded when a method is run on an example.\<close>

lemmas example_defs =
  example_settings_def example_step_def example_body_def example_distance_def
  example_distance_def_def example_pulley_def example_revolute_def

lemmas example_defs2 = example_defs example_revolute_at_lower_def example_moving_body_def

lemmas vec_defs =
  Vec2_zero_def Vec2_add_def Vec2_sub_def Vec2_mul_def Vec2_neg_def Vec2_cross_def
  Vec2_crossNumVec_def Vec2_length_def Vec2_addMul_def Vec2_subMul_def Vec2_addCombine_def
  Vec2_subCombine_def Vec2_combine_def Vec3_zero_def Vec3_add_def Vec3_mul_def Vec3_neg_def
  Vec3_dot_def Vec3_cross_def Rot_neo_def Rot_mulVec2_def Rot_mulSub_def

lemmas distance_init_defs =
  DistanceJoint_initVelocityConstraints_def DistanceJoint_initAxis_def
  DistanceJoint_effectiveMass_def DistanceJoint_warmStart_def DistanceJoint_new_def
  Body_getLocalPoint_def Body_getWorldPoint_def Transform_mulVec2_def Transform_mulTVec2_def

lemmas pulley_init_defs =
  PulleyJoint_initVelocityConstraints_def PulleyJoint_initMass_def PulleyJoint_warmStart_def

lemmas revolute_init_defs =
  RevoluteJoint_initVelocityConstraints_def RevoluteJoint_initMass_def
  RevoluteJoint_updateLimitState_def RevoluteJoint_warmStart_def set_m_impulse_z_def

section \<open>Warm starting\<close>

text \<open>
  C3. With \<open>step.warmStarting\<close>, \<open>initVelocityConstraints\<close> of the distance
  and of the pulley joint multiplies the accumulated impulse by \<open>step.dtRatio\<close>, and
  that of the revolute joint multiplies the point impulse \<open>(m_impulse.x, m_impulse.y)\<close>
  by it. The revolute joint's motor impulse is first reset to zero when the motor is
  disabled or neither body can rotate, and is scaled otherwise. Its limit impulse
  \<open>m_impulse.z\<close> is first reset to zero when the limit is enabled, a body can rotate,
  the two limits are at least \<open>2 * angularSlop\<close> apart, and the joint angle is at or
  below the lower limit with a state other than \<open>atLowerLimit\<close>, or else at or above the
  upper limit with a state other than \<open>atUpperLimit\<close>, or else strictly between the
  limits; in every other case it is scaled. In each joint the impulses so stored are
  exactly what is applied to the working velocities of the two bodies. Without
  \<open>step.warmStarting\<close> the accumulated impulses are zero afterwards and the velocities
  are unchanged. Each call returns (\<open>linearSlop\<close> is taken not to be negative).
\<close>

theorem warm_start_impulses:
  assumes "0 \<le> linearSlop st"
  shows
  "(\<exists>j' a' b'. DistanceJoint_initVelocityConstraints st step dj bodyA bodyB = Some (j', a', b')
     \<and> (if warmStarting step
         then DistanceJoint.m_impulse j' = DistanceJoint.m_impulse dj * dtRatio step
            \<and> c_velocity a' = Velocity
                 (Vec2_subMul (Velocity_v (c_velocity bodyA)) (m_invMass bodyA)
                    (Vec2_mul (DistanceJoint.m_impulse j') (DistanceJoint.m_u j')))
                 (Velocity_w (c_velocity bodyA) - m_invI bodyA
                    * Vec2_cross (DistanceJoint.m_rA j')
                        (Vec2_mul (DistanceJoint.m_impulse j') (DistanceJoint.m_u j')))
            \<and> c_velocity b' = Velocity
                 (Vec2_addMul (Velocity_v (c_velocity bodyB)) (m_invMass bodyB)
                    (Vec2_mul (DistanceJoint.m_impulse j') (DistanceJoint.m_u j')))
                 (Velocity_w (c_velocity bodyB) + m_invI bodyB
                    * Vec2_cross (DistanceJoint.m_rB j')
                        (Vec2_mul (DistanceJoint.m_impulse j') (DistanceJoint.m_u j')))
         else DistanceJoint.m_impulse j' = 0
            \<and> c_velocity a' = c_velocity bodyA \<and> c_velocity b' = c_velocity bodyB))
   \<and> (\<exists>j' a' b'. PulleyJoint_initVelocityConstraints st step pj bodyA bodyB = Some (j', a', b')
     \<and> (if warmStarting step
         then PulleyJoint.m_impulse j' = PulleyJoint.m_impulse pj * dtRatio step
            \<and> c_velocity a' = Velocity
                 (Vec2_addMul (Velocity_v (c_velocity bodyA)) (m_invMass bodyA)
                    (Vec2_mul (- PulleyJoint.m_impulse j') (m_uA j')))
                 (Velocity_w (c_velocity bodyA) + m_invI bodyA
                    * Vec2_cross (PulleyJoint.m_rA j')
                        (Vec2_mul (- PulleyJoint.m_impulse j') (m_uA j')))
            \<and> c_velocity b' = Velocity
                 (Vec2_addMul (Velocity_v (c_velocity bodyB)) (m_invMass bodyB)
                    (Vec2_mul (- m_ratio pj * PulleyJoint.m_impulse j') (m_uB j')))
                 (Velocity_w (c_velocity bodyB) + m_invI bodyB
                    * Vec2_cross (PulleyJoint.m_rB j')
                        (Vec2_mul (- m_ratio pj * PulleyJoint.m_impulse j') (m_uB j')))
         else PulleyJoint.m_impulse j' = 0
            \<and> c_velocity a' = c_velocity bodyA \<and> c_velocity b' = c_velocity bodyB))
   \<and> (\<exists>j' a' b'. RevoluteJoint_initVelocityConstraints st step rj bodyA bodyB = Some (j', a', b')
     \<and> (if warmStarting step
         then Vec3_x (RevoluteJoint.m_impulse j')
                = Vec3_x (RevoluteJoint.m_impulse rj) * dtRatio step
            \<and> Vec3_y (RevoluteJoint.m_impulse j')
                = Vec3_y (RevoluteJoint.m_impulse rj) * dtRatio step
            \<and> Vec3_z (RevoluteJoint.m_impulse j') =
                (if m_enableLimit rj \<and> m_invI bodyA + m_invI bodyB \<noteq> 0
                    \<and> \<not> Math_abs (m_upperAngle rj - m_lowerAngle rj) < 2 * angularSlop st
                    \<and> (if Position_a (c_position bodyB) - Position_a (c_position bodyA)
                              - m_referenceAngle rj \<le> m_lowerAngle rj
                        then m_limitState rj \<noteq> atLowerLimit
                        else if Position_a (c_position bodyB) - Position_a (c_position bodyA)
                              - m_referenceAngle rj \<ge> m_upperAngle rj
                        then m_limitState rj \<noteq> atUpperLimit
                        else True)
                 then 0 else Vec3_z (RevoluteJoint.m_impulse rj) * dtRatio step)
            \<and> m_motorImpulse j' =
                (if m_enableMotor rj = False \<or> m_invI bodyA + m_invI bodyB = 0
                 then 0 else m_motorImpulse rj * dtRatio step)
            \<and> c_velocity a' = Velocity
                 (Vec2_subMul (Velocity_v (c_velocity bodyA)) (m_invMass bodyA)
                    (Vec2 (Vec3_x (RevoluteJoint.m_impulse j')) (Vec3_y (RevoluteJoint.m_impulse j'))))
                 (Velocity_w (c_velocity bodyA) - m_invI bodyA
                    * (Vec2_cross (RevoluteJoint.m_rA j')
                         (Vec2 (Vec3_x (RevoluteJoint.m_impulse j')) (Vec3_y (RevoluteJoint.m_impulse j')))
                       + m_motorImpulse j' + Vec3_z (RevoluteJoint.m_impulse j')))
            \<and> c_velocity b' = Velocity
                 (Vec2_addMul (Velocity_v (c_velocity bodyB)) (m_invMass bodyB)
                    (Vec2 (Vec3_x (RevoluteJoint.m_impulse j')) (Vec3_y (RevoluteJoint.m_impulse j'))))
                 (Velocity_w (c_velocity bodyB) + m_invI bodyB
                    * (Vec2_cross (RevoluteJoint.m_rB j')
                         (Vec2 (Vec3_x (RevoluteJoint.m_impulse j')) (Vec3_y (RevoluteJoint.m_impulse j')))
                       + m_motorImpulse j' + Vec3_z (RevoluteJoint.m_impulse j')))
         else RevoluteJoint.m_impulse j' = Vec3_zero \<and> m_motorImpulse j' = 0
            \<and> c_velocity a' = c_velocity bodyA \<and> c_velocity b' = c_velocity bodyB))"
proof -
  obtain dj' da' db' where
    d: "DistanceJoint_initVelocityConstraints st step dj bodyA bodyB = Some (dj', da', db')"
    using DistanceJoint_init_total [OF assms] by blast
  obtain pj' pa' pb' where
    p: "PulleyJoint_initVelocityConstraints st step pj bodyA bodyB = Some (pj', pa', pb')"
    using PulleyJoint_init_total [OF assms] by blast
  obtain rj' ra' rb' where
    r: "RevoluteJoint_initVelocityConstraints st step rj bodyA bodyB = Some (rj', ra', rb')"
    using RevoluteJoint_init_total by blast
  show ?thesis
    apply (intro conjI)
      apply (intro exI conjI, rule d, rule DistanceJoint_init_warmD [OF d])
     apply (intro exI conjI, rule p, rule PulleyJoint_init_warmD [OF p])
    apply (intro exI conjI, rule r, rule RevoluteJoint_init_warmD [OF r])
    done
qed

theorem warm_start_impulses_witness:
  "0 \<le> linearSlop example_settings
   \<and> (\<exists>j' a' b'. DistanceJoint_initVelocityConstraints example_settings (example_step True)
          (example_distance 0 3) (example_body (Vec2 0 0) 1 1) (example_body (Vec2 3 0) 1 1)
            = Some (j', a', b')
        \<and> DistanceJoint.m_impulse j' = 6)
   \<and> (\<exists>j' a' b'. PulleyJoint_initVelocityConstraints example_settings (example_step True)
          (example_pulley 2) (example_body (Vec2 0 0) 1 1) (example_body (Vec2 3 0) 1 1)
            = Some (j', a', b')
        \<and> PulleyJoint.m_impulse j' = 6)
   \<and> (\<exists>j' a' b'. RevoluteJoint_initVelocityConstraints example_settings (example_step True)
          (example_revolute True 0 0) (example_body (Vec2 0 0) 1 1) (example_body (Vec2 3 0) 1 1)
            = Some (j', a', b')
        \<and> Vec3_x (RevoluteJoint.m_impulse j') = 2 \<and> Vec3_z (RevoluteJoint.m_impulse j') = 2
        \<and> m_motorImpulse j' = 0)
   \<and> (\<exists>j' a' b'. DistanceJoint_initVelocityConstraints example_settings (example_step False)
          (example_distance 0 3) (example_body (Vec2 0 0) 1 1) (example_body (Vec2 3 0) 1 1)
            = Some (j', a', b')
        \<and> DistanceJoint.m_impulse j' = 0 \<and> c_velocity a' = Velocity Vec2_zero 0)
   \<and> (\<exists>j' a' b'. PulleyJoint_initVelocityConstraints example_settings (example_step False)
          (example_pulley 2) (example_body (Vec2 0 0) 1 1) (example_body (Vec2 3 0) 1 1)
            = Some (j', a', b')
        \<and> PulleyJoint.m_impulse j' = 0 \<and> c_velocity a' = Velocity Vec2_zero 0)
   \<and> (\<exists>j' a' b'. RevoluteJoint_initVelocityConstraints example_settings (example_step False)
          (example_revolute True 0 0) (example_body (Vec2 0 0) 1 1) (example_body (Vec2 3 0) 1 1)
            = Some (j', a', b')
        \<and> RevoluteJoint.m_impulse j' = Vec3_zero \<and> c_velocity a' = Velocity Vec2_zero 0)"
proof -
  have h: "0 \<le> linearSlop example_settings" by (simp add: example_settings_def)
  have i: "DistanceJoint.m_impulse (example_distance 0 3) = 3"
    "PulleyJoint.m_impulse (example_pulley 2) = 3"
    "Vec3_x (RevoluteJoint.m_impulse (example_revolute True 0 0)) = 1"
    "Vec3_z (RevoluteJoint.m_impulse (example_revolute True 0 0)) = 1"
    "m_enableMotor (example_revolute True 0 0) = False"
    "m_lowerAngle (example_revolute True 0 0) = 0"
    "m_upperAngle (example_revolute True 0 0) = 0"
    "angularSlop example_settings = 7 / 200"
    "c_velocity (example_body (Vec2 0 0) 1 1) = Velocity Vec2_zero 0"
    by (simp_all add: example_distance_def example_pulley_def example_revolute_def
        example_body_def example_settings_def)
  from warm_start_impulses [OF h, of "example_step True" "example_distance 0 3"
         "example_body (Vec2 0 0) 1 1" "example_body (Vec2 3 0) 1 1" "example_pulley 2"
         "example_revolute True 0 0"]
       warm_start_impulses [OF h, of "example_step False" "example_distance 0 3"
         "example_body (Vec2 0 0) 1 1" "example_body (Vec2 3 0) 1 1" "example_pulley 2"
         "example_revolute True 0 0"]
  show ?thesis
    using h by (simp add: i example_step_def Math_abs_def) blast
qed

theorem revolute_warm_start_counterexample:
  "\<exists>j' a' b'. RevoluteJoint_initVelocityConstraints example_settings (example_step True)
       (example_revolute True (- 1) 1) (example_body (Vec2 0 0) 1 1) (example_body (Vec2 0 0) 1 1)
         = Some (j', a', b')
     \<and> warmStarting (example_step True)
     \<and> m_motorImpulse (example_revolute True (- 1) 1) * dtRatio (example_step True) = 2
     \<and> m_motorImpulse j' = 0
     \<and> Vec3_z (RevoluteJoint.m_impulse (example_revolute True (- 1) 1))
          * dtRatio (example_step True) = 2
     \<and> Vec3_z (RevoluteJoint.m_impulse j') = 0"
  by (simp add: RevoluteJoint_initVelocityConstraints_def RevoluteJoint_initMass_def
      RevoluteJoint_updateLimitState_def RevoluteJoint_warmStart_def set_m_impulse_z_def
      example_settings_def example_step_def example_revolute_def example_body_def
      Let_def recip_def Math_abs_def Rot_neo_def Rot_mulVec2_def Vec2_sub_def Vec2_zero_def
      Vec3_mul_def)

section \<open>Effective masses\<close>

text \<open>
  C6. \<open>initVelocityConstraints\<close> returns, and so never inverts a zero sum
  (with \<open>linearSlop\<close> not negative). The distance joint's \<open>m_mass\<close> is, in rigid
  mode, the reciprocal of the specification's sum where that is not zero and 0 where it
  is zero; in soft mode (\<open>frequencyHz > 0\<close>) it is the same of the sum plus \<open>m_gamma\<close>.
  The pulley joint's \<open>m_mass\<close> is the reciprocal of the sum in which body B's terms
  are weighted by the square of the ratio, each body with its own axis, where that is
  positive, and the sum itself otherwise (0 at 0). The revolute joint's
  \<open>m_motorMass\<close> is the reciprocal of \<open>invIA + invIB\<close> where that is positive, and the
  sum itself otherwise (0 at 0).
\<close>

theorem effective_mass_values:
  assumes "0 \<le> linearSlop st"
  shows
  "(\<exists>j' a' b'. DistanceJoint_initVelocityConstraints st step dj bodyA bodyB = Some (j', a', b')
     \<and> DistanceJoint.m_mass j' =
         (if DistanceJoint.m_frequencyHz dj > 0
          then (if spec_effective_mass_sum (m_invMass bodyA) (m_invMass bodyB)
                     (m_invI bodyA) (m_invI bodyB)
                     (Vec2_cross (DistanceJoint.m_rA j') (DistanceJoint.m_u j'))
                     (Vec2_cross (DistanceJoint.m_rB j') (DistanceJoint.m_u j'))
                   + DistanceJoint.m_gamma j' \<noteq> 0
                then 1 / (spec_effective_mass_sum (m_invMass bodyA) (m_invMass bodyB)
                     (m_invI bodyA) (m_invI bodyB)
                     (Vec2_cross (DistanceJoint.m_rA j') (DistanceJoint.m_u j'))
                     (Vec2_cross (DistanceJoint.m_rB j') (DistanceJoint.m_u j'))
                   + DistanceJoint.m_gamma j')
                else 0)
          else (if spec_effective_mass_sum (m_invMass bodyA) (m_invMass bodyB)
                     (m_invI bodyA) (m_invI bodyB)
                     (Vec2_cross (DistanceJoint.m_rA j') (DistanceJoint.m_u j'))
                     (Vec2_cross (DistanceJoint.m_rB j') (DistanceJoint.m_u j')) \<noteq> 0
                then 1 / spec_effective_mass_sum (m_invMass bodyA) (m_invMass bodyB)
                     (m_invI bodyA) (m_invI bodyB)
                     (Vec2_cross (DistanceJoint.m_rA j') (DistanceJoint.m_u j'))
                     (Vec2_cross (DistanceJoint.m_rB j') (DistanceJoint.m_u j'))
                else 0)))
   \<and> (\<exists>j' a' b'. PulleyJoint_initVelocityConstraints st step pj bodyA bodyB = Some (j', a', b')
     \<and> PulleyJoint.m_mass j' =
         (if spec_effective_mass_sum (m_invMass bodyA) ((m_ratio pj)\<^sup>2 * m_invMass bodyB)
                (m_invI bodyA) ((m_ratio pj)\<^sup>2 * m_invI bodyB)
                (Vec2_cross (PulleyJoint.m_rA j') (m_uA j'))
                (Vec2_cross (PulleyJoint.m_rB j') (m_uB j')) > 0
          then 1 / spec_effective_mass_sum (m_invMass bodyA) ((m_ratio pj)\<^sup>2 * m_invMass bodyB)
                (m_invI bodyA) ((m_ratio pj)\<^sup>2 * m_invI bodyB)
                (Vec2_cross (PulleyJoint.m_rA j') (m_uA j'))
                (Vec2_cross (PulleyJoint.m_rB j') (m_uB j'))
          else spec_effective_mass_sum (m_invMass bodyA) ((m_ratio pj)\<^sup>2 * m_invMass bodyB)
                (m_invI bodyA) ((m_ratio pj)\<^sup>2 * m_invI bodyB)
                (Vec2_cross (PulleyJoint.m_rA j') (m_uA j'))
                (Vec2_cross (PulleyJoint.m_rB j') (m_uB j'))))
   \<and> (\<exists>j' a' b'. RevoluteJoint_initVelocityConstraints st step rj bodyA bodyB = Some (j', a', b')
     \<and> m_motorMass j' =
         (if m_invI bodyA + m_invI bodyB > 0 then 1 / (m_invI bodyA + m_invI bodyB)
          else m_invI bodyA + m_invI bodyB))"
proof -
  obtain dj' da' db' where
    d: "DistanceJoint_initVelocityConstraints st step dj bodyA bodyB = Some (dj', da', db')"
    using DistanceJoint_init_total [OF assms] by blast
  obtain pj' pa' pb' where
    p: "PulleyJoint_initVelocityConstraints st step pj bodyA bodyB = Some (pj', pa', pb')"
    using PulleyJoint_init_total [OF assms] by blast
  obtain rj' ra' rb' where
    r: "RevoluteJoint_initVelocityConstraints st step rj bodyA bodyB = Some (rj', ra', rb')"
    using RevoluteJoint_init_total by blast
  have sumD: "spec_effective_mass_sum mA mB iA iB x y = mA + iA * x * x + mB + iB * y * y"
    for mA mB iA iB x y
    by (simp add: spec_effective_mass_sum_def power2_eq_square algebra_simps)
  have sumP: "spec_effective_mass_sum mA (q\<^sup>2 * mB) iA (q\<^sup>2 * iB) x y
                = mA + iA * x * x + q * q * (mB + iB * y * y)"
    for mA mB iA iB x y q
    by (simp add: spec_effective_mass_sum_def power2_eq_square algebra_simps)
  show ?thesis
    apply (intro conjI)
      apply (intro exI conjI, rule d)
      apply (simp only: sumD)
      apply (rule DistanceJoint_init_massD [OF d])
     apply (intro exI conjI, rule p)
     apply (simp only: sumP)
     apply (rule PulleyJoint_init_massD [OF p])
    apply (intro exI conjI, rule r, rule RevoluteJoint_init_massD [OF r])
    done
qed

theorem effective_mass_values_witness:
  "0 \<le> linearSlop example_settings
   \<and> (\<exists>j' a' b'. DistanceJoint_initVelocityConstraints example_settings (example_step True)
          (example_distance 0 3) (example_body (Vec2 0 0) 1 1) (example_body (Vec2 3 0) 1 1)
            = Some (j', a', b')
        \<and> DistanceJoint.m_mass j' = 1 / 2)
   \<and> (\<exists>j' a' b'. DistanceJoint_initVelocityConstraints example_settings (example_step True)
          (example_distance 0 3) (example_body (Vec2 0 0) 0 0) (example_body (Vec2 3 0) 0 0)
            = Some (j', a', b')
        \<and> DistanceJoint.m_mass j' = 0)
   \<and> (\<exists>j' a' b'. PulleyJoint_initVelocityConstraints example_settings (example_step True)
          (example_pulley 1) (example_body (Vec2 0 0) 1 1) (example_body (Vec2 3 0) 1 1)
            = Some (j', a', b')
        \<and> PulleyJoint.m_mass j' = 1 / 2)
   \<and> (\<exists>j' a' b'. PulleyJoint_initVelocityConstraints example_settings (example_step True)
          (example_pulley 1) (example_body (Vec2 0 0) 0 0) (example_body (Vec2 3 0) 0 0)
            = Some (j', a', b')
        \<and> PulleyJoint.m_mass j' = 0)
   \<and> (\<exists>j' a' b'. RevoluteJoint_initVelocityConstraints example_settings (example_step True)
          (example_revolute True 0 0) (example_body (Vec2 0 0) 1 1) (example_body (Vec2 3 0) 1 1)
            = Some (j', a', b')
        \<and> m_motorMass j' = 1 / 2)
   \<and> (\<exists>j' a' b'. RevoluteJoint_initVelocityConstraints example_settings (example_step True)
          (example_revolute True 0 0) (example_body (Vec2 0 0) 0 0) (example_body (Vec2 3 0) 0 0)
            = Some (j', a', b')
        \<and> m_motorMass j' = 0)"
proof -
  have h: "0 \<le> linearSlop example_settings" by (simp add: example_settings_def)
  note a = effective_mass_values [OF h, of "example_step True" "example_distance 0 3"
         "example_body (Vec2 0 0) 1 1" "example_body (Vec2 3 0) 1 1" "example_pulley 1"
         "example_revolute True 0 0"]
  note b = effective_mass_values [OF h, of "example_step True" "example_distance 0 3"
         "example_body (Vec2 0 0) 0 0" "example_body (Vec2 3 0) 0 0" "example_pulley 1"
         "example_revolute True 0 0"]
  show ?thesis
    using a b h
    by (simp add: distance_init_defs pulley_init_defs revolute_init_defs
      example_defs vec_defs Let_def recip_def Math_abs_def)
qed

theorem effective_mass_counterexample:
  "(\<exists>j' a' b'. PulleyJoint_initVelocityConstraints example_settings (example_step True)
        (example_pulley 2) (example_body (Vec2 0 0) 1 1) (example_body (Vec2 3 0) 1 1)
          = Some (j', a', b')
      \<and> spec_effective_mass_sum (m_invMass (example_body (Vec2 0 0) 1 1))
           (m_invMass (example_body (Vec2 3 0) 1 1)) (m_invI (example_body (Vec2 0 0) 1 1))
           (m_invI (example_body (Vec2 3 0) 1 1))
           (Vec2_cross (PulleyJoint.m_rA j') (m_uA j'))
           (Vec2_cross (PulleyJoint.m_rB j') (m_uB j')) = 2
      \<and> PulleyJoint.m_mass j' = 1 / 5)
   \<and> (\<exists>j' a' b'. DistanceJoint_initVelocityConstraints example_settings (example_step True)
        (example_distance 1 3) (example_body (Vec2 0 0) 1 1) (example_body (Vec2 3 0) 1 1)
          = Some (j', a', b')
      \<and> spec_effective_mass_sum (m_invMass (example_body (Vec2 0 0) 1 1))
           (m_invMass (example_body (Vec2 3 0) 1 1)) (m_invI (example_body (Vec2 0 0) 1 1))
           (m_invI (example_body (Vec2 3 0) 1 1))
           (Vec2_cross (DistanceJoint.m_rA j') (DistanceJoint.m_u j'))
           (Vec2_cross (DistanceJoint.m_rB j') (DistanceJoint.m_u j')) = 2
      \<and> DistanceJoint.m_mass j' \<noteq> 1 / 2)"
  apply (intro conjI)
   apply (simp add: pulley_init_defs example_defs vec_defs Let_def recip_def
      spec_effective_mass_sum_def)
  apply (simp add: distance_init_defs example_defs vec_defs Let_def recip_def
      spec_effective_mass_sum_def)
  done

section \<open>Position correction\<close>













section \<open>Revolute joint: the systems solved for the velocities\<close>

lemma Mat33_solve33_total: "\<exists>s. Mat33_solve33 m v = Some s"
  by (simp add: Mat33_solve33_def Let_def recip_def)

lemma Mat33_solve22_total: "\<exists>s. Mat33_solve22 m v = Some s"
  by (simp add: Mat33_solve22_def Let_def recip_def)

lemma RevoluteJoint_solveMotor_D:
  assumes "RevoluteJoint_solveMotor step j wA wB = (j1, wA1, wB1)"
  shows "RevoluteJoint.m_impulse j1 = RevoluteJoint.m_impulse j
     \<and> RevoluteJoint.m_mass j1 = RevoluteJoint.m_mass j
     \<and> RevoluteJoint.m_rA j1 = RevoluteJoint.m_rA j \<and> RevoluteJoint.m_rB j1 = RevoluteJoint.m_rB j
     \<and> RevoluteJoint.m_invMassA j1 = RevoluteJoint.m_invMassA j
     \<and> RevoluteJoint.m_invMassB j1 = RevoluteJoint.m_invMassB j
     \<and> RevoluteJoint.m_invIA j1 = RevoluteJoint.m_invIA j
     \<and> RevoluteJoint.m_invIB j1 = RevoluteJoint.m_invIB j
     \<and> m_enableLimit j1 = m_enableLimit j \<and> m_limitState j1 = m_limitState j
     \<and> m_motorImpulse j1 =
         (if m_enableMotor j \<and> m_limitState j \<noteq> equalLimits
               \<and> RevoluteJoint.m_invIA j + RevoluteJoint.m_invIB j \<noteq> 0
          then Math_clamp (m_motorImpulse j + (- m_motorMass j * (wB - wA - m_motorSpeed j)))
                 (- (dt step * m_maxMotorTorque j)) (dt step * m_maxMotorTorque j)
          else m_motorImpulse j)"
  using assms
  by (auto simp add: RevoluteJoint_solveMotor_def Let_def split: if_splits)

lemma RevoluteJoint_solveLimit_D:
  assumes s: "Mat33_solve33 (RevoluteJoint.m_mass j)
                (Vec3 (Vec2_x (Vec2_subCombine
                         (Vec2_addCombine Vec2_zero 1 vB 1 (Vec2_crossNumVec wB (RevoluteJoint.m_rB j)))
                         1 vA 1 (Vec2_crossNumVec wA (RevoluteJoint.m_rA j))))
                      (Vec2_y (Vec2_subCombine
                         (Vec2_addCombine Vec2_zero 1 vB 1 (Vec2_crossNumVec wB (RevoluteJoint.m_rB j)))
                         1 vA 1 (Vec2_crossNumVec wA (RevoluteJoint.m_rA j))))
                      (wB - wA)) = Some s"
    and r: "Mat33_solve22 (RevoluteJoint.m_mass j)
              (Vec2_combine (- 1)
                 (Vec2_subCombine
                    (Vec2_addCombine Vec2_zero 1 vB 1 (Vec2_crossNumVec wB (RevoluteJoint.m_rB j)))
                    1 vA 1 (Vec2_crossNumVec wA (RevoluteJoint.m_rA j)))
                 (Vec3_z (RevoluteJoint.m_impulse j))
                 (Vec2 (Vec3_x (Mat33_ez (RevoluteJoint.m_mass j)))
                       (Vec3_y (Mat33_ez (RevoluteJoint.m_mass j))))) = Some r"
    and st: "m_limitState j \<noteq> inactiveLimit"
  shows "\<exists>j' vA' wA' vB' wB'. RevoluteJoint_solveLimit j vA wA vB wB = Some (j', vA', wA', vB', wB')
     \<and> m_motorImpulse j' = m_motorImpulse j
     \<and> RevoluteJoint.m_impulse j' =
         (if m_limitState j = equalLimits
             \<or> (m_limitState j = atLowerLimit \<and> 0 \<le> Vec3_z (RevoluteJoint.m_impulse j) - Vec3_z s)
             \<or> (m_limitState j = atUpperLimit \<and> Vec3_z (RevoluteJoint.m_impulse j) - Vec3_z s \<le> 0)
          then Vec3_add (RevoluteJoint.m_impulse j) (Vec3_neg s)
          else Vec3 (Vec3_x (RevoluteJoint.m_impulse j) + Vec2_x r)
                    (Vec3_y (RevoluteJoint.m_impulse j) + Vec2_y r) 0)"
proof (cases "m_limitState j")
  case inactiveLimit
  with st show ?thesis by simp
next
  case atLowerLimit
  then show ?thesis
    using s r
    by (simp add: RevoluteJoint_solveLimit_def Let_def Vec3_neg_def not_less)
next
  case atUpperLimit
  then show ?thesis
    using s r
    by (simp add: RevoluteJoint_solveLimit_def Let_def Vec3_neg_def not_less)
next
  case equalLimits
  then show ?thesis
    using s r
    by (simp add: RevoluteJoint_solveLimit_def Let_def)
qed

lemma RevoluteJoint_solvePoint_D:
  assumes p: "Mat33_solve22 (RevoluteJoint.m_mass j)
              (Vec2_neg
                 (Vec2_subCombine
                    (Vec2_addCombine Vec2_zero 1 vB 1 (Vec2_crossNumVec wB (RevoluteJoint.m_rB j)))
                    1 vA 1 (Vec2_crossNumVec wA (RevoluteJoint.m_rA j)))) = Some p"
  shows "\<exists>j' vA' wA' vB' wB'. RevoluteJoint_solvePoint j vA wA vB wB = Some (j', vA', wA', vB', wB')
     \<and> m_motorImpulse j' = m_motorImpulse j
     \<and> RevoluteJoint.m_impulse j' =
          Vec3 (Vec3_x (RevoluteJoint.m_impulse j) + Vec2_x p)
               (Vec3_y (RevoluteJoint.m_impulse j) + Vec2_y p)
               (Vec3_z (RevoluteJoint.m_impulse j))"
  using p by (simp add: RevoluteJoint_solvePoint_def Let_def)

text \<open>
  C7. In \<open>solveVelocityConstraints\<close> of the revolute joint, after the motor
  block (which uses the scalar \<open>m_motorMass\<close> and runs when the motor is enabled, the
  state is not \<open>equalLimits\<close> and a body can rotate): when the limit is enabled, its
  state is not \<open>inactiveLimit\<close> and a body can rotate, the 3x3 system is solved, and
  its solution is accumulated in full in the state \<open>equalLimits\<close>, and also at the lower
  (upper) limit as long as the accumulated limit impulse stays non-negative
  (non-positive); otherwise at a limit the reduced 2x2 system is solved and the limit
  impulse becomes zero. In every other case the 2x2 point-to-point system is solved and
  the limit impulse is left as it is.
\<close>

theorem RevoluteJoint_velocity_systems:
  assumes m: "RevoluteJoint_solveMotor step this (Velocity_w (c_velocity bodyA))
                (Velocity_w (c_velocity bodyB)) = (j1, wA1, wB1)"
  shows "\<exists>j' a' b' s r p.
     RevoluteJoint_solveVelocityConstraints step this bodyA bodyB = Some (j', a', b')
     \<and> Mat33_solve33 (RevoluteJoint.m_mass this)
          (Vec3 (Vec2_x (Vec2_subCombine
                   (Vec2_addCombine Vec2_zero 1 (Velocity_v (c_velocity bodyB)) 1
                      (Vec2_crossNumVec wB1 (RevoluteJoint.m_rB this)))
                   1 (Velocity_v (c_velocity bodyA)) 1
                   (Vec2_crossNumVec wA1 (RevoluteJoint.m_rA this))))
                (Vec2_y (Vec2_subCombine
                   (Vec2_addCombine Vec2_zero 1 (Velocity_v (c_velocity bodyB)) 1
                      (Vec2_crossNumVec wB1 (RevoluteJoint.m_rB this)))
                   1 (Velocity_v (c_velocity bodyA)) 1
                   (Vec2_crossNumVec wA1 (RevoluteJoint.m_rA this))))
                (wB1 - wA1)) = Some s
     \<and> Mat33_solve22 (RevoluteJoint.m_mass this)
          (Vec2_combine (- 1)
             (Vec2_subCombine
                (Vec2_addCombine Vec2_zero 1 (Velocity_v (c_velocity bodyB)) 1
                   (Vec2_crossNumVec wB1 (RevoluteJoint.m_rB this)))
                1 (Velocity_v (c_velocity bodyA)) 1
                (Vec2_crossNumVec wA1 (RevoluteJoint.m_rA this)))
             (Vec3_z (RevoluteJoint.m_impulse this))
             (Vec2 (Vec3_x (Mat33_ez (RevoluteJoint.m_mass this)))
                   (Vec3_y (Mat33_ez (RevoluteJoint.m_mass this))))) = Some r
     \<and> Mat33_solve22 (RevoluteJoint.m_mass this)
          (Vec2_neg
             (Vec2_subCombine
                (Vec2_addCombine Vec2_zero 1 (Velocity_v (c_velocity bodyB)) 1
                   (Vec2_crossNumVec wB1 (RevoluteJoint.m_rB this)))
                1 (Velocity_v (c_velocity bodyA)) 1
                (Vec2_crossNumVec wA1 (RevoluteJoint.m_rA this)))) = Some p
     \<and> RevoluteJoint.m_impulse j' =
         (if m_enableLimit this \<and> m_limitState this \<noteq> inactiveLimit
               \<and> RevoluteJoint.m_invIA this + RevoluteJoint.m_invIB this \<noteq> 0
          then (if m_limitState this = equalLimits
                   \<or> (m_limitState this = atLowerLimit
                        \<and> 0 \<le> Vec3_z (RevoluteJoint.m_impulse this) - Vec3_z s)
                   \<or> (m_limitState this = atUpperLimit
                        \<and> Vec3_z (RevoluteJoint.m_impulse this) - Vec3_z s \<le> 0)
                then Vec3_add (RevoluteJoint.m_impulse this) (Vec3_neg s)
                else Vec3 (Vec3_x (RevoluteJoint.m_impulse this) + Vec2_x r)
                          (Vec3_y (RevoluteJoint.m_impulse this) + Vec2_y r) 0)
          else Vec3 (Vec3_x (RevoluteJoint.m_impulse this) + Vec2_x p)
                    (Vec3_y (RevoluteJoint.m_impulse this) + Vec2_y p)
                    (Vec3_z (RevoluteJoint.m_impulse this)))
     \<and> m_motorImpulse j' =
         (if m_enableMotor this \<and> m_limitState this \<noteq> equalLimits
               \<and> RevoluteJoint.m_invIA this + RevoluteJoint.m_invIB this \<noteq> 0
          then Math_clamp
                 (m_motorImpulse this
                    + (- m_motorMass this
                         * (Velocity_w (c_velocity bodyB) - Velocity_w (c_velocity bodyA)
                              - m_motorSpeed this)))
                 (- (dt step * m_maxMotorTorque this)) (dt step * m_maxMotorTorque this)
          else m_motorImpulse this)"
proof -
  let ?vA = "Velocity_v (c_velocity bodyA)" and ?vB = "Velocity_v (c_velocity bodyB)"
  note d = RevoluteJoint_solveMotor_D [OF m]
  let ?Cdot1 = "Vec2_subCombine
                (Vec2_addCombine Vec2_zero 1 ?vB 1 (Vec2_crossNumVec wB1 (RevoluteJoint.m_rB this)))
                1 ?vA 1 (Vec2_crossNumVec wA1 (RevoluteJoint.m_rA this))"
  obtain s where s: "Mat33_solve33 (RevoluteJoint.m_mass this)
      (Vec3 (Vec2_x ?Cdot1) (Vec2_y ?Cdot1) (wB1 - wA1)) = Some s"
    using Mat33_solve33_total by blast
  obtain r where r: "Mat33_solve22 (RevoluteJoint.m_mass this)
      (Vec2_combine (- 1) ?Cdot1 (Vec3_z (RevoluteJoint.m_impulse this))
         (Vec2 (Vec3_x (Mat33_ez (RevoluteJoint.m_mass this)))
               (Vec3_y (Mat33_ez (RevoluteJoint.m_mass this))))) = Some r"
    using Mat33_solve22_total by blast
  obtain p where p: "Mat33_solve22 (RevoluteJoint.m_mass this) (Vec2_neg ?Cdot1) = Some p"
    using Mat33_solve22_total by blast
  have "\<exists>j' a' b'.
      RevoluteJoint_solveVelocityConstraints step this bodyA bodyB = Some (j', a', b')
      \<and> RevoluteJoint.m_impulse j' =
         (if m_enableLimit this \<and> m_limitState this \<noteq> inactiveLimit
               \<and> RevoluteJoint.m_invIA this + RevoluteJoint.m_invIB this \<noteq> 0
          then (if m_limitState this = equalLimits
                   \<or> (m_limitState this = atLowerLimit
                        \<and> 0 \<le> Vec3_z (RevoluteJoint.m_impulse this) - Vec3_z s)
                   \<or> (m_limitState this = atUpperLimit
                        \<and> Vec3_z (RevoluteJoint.m_impulse this) - Vec3_z s \<le> 0)
                then Vec3_add (RevoluteJoint.m_impulse this) (Vec3_neg s)
                else Vec3 (Vec3_x (RevoluteJoint.m_impulse this) + Vec2_x r)
                          (Vec3_y (RevoluteJoint.m_impulse this) + Vec2_y r) 0)
          else Vec3 (Vec3_x (RevoluteJoint.m_impulse this) + Vec2_x p)
                    (Vec3_y (RevoluteJoint.m_impulse this) + Vec2_y p)
                    (Vec3_z (RevoluteJoint.m_impulse this)))
      \<and> m_motorImpulse j' =
         (if m_enableMotor this \<and> m_limitState this \<noteq> equalLimits
               \<and> RevoluteJoint.m_invIA this + RevoluteJoint.m_invIB this \<noteq> 0
          then Math_clamp
                 (m_motorImpulse this
                    + (- m_motorMass this
                         * (Velocity_w (c_velocity bodyB) - Velocity_w (c_velocity bodyA)
                              - m_motorSpeed this)))
                 (- (dt step * m_maxMotorTorque this)) (dt step * m_maxMotorTorque this)
          else m_motorImpulse this)"
  proof (cases "m_enableLimit this \<and> m_limitState this \<noteq> inactiveLimit
               \<and> RevoluteJoint.m_invIA this + RevoluteJoint.m_invIB this \<noteq> 0")
    case True
    then have st: "m_limitState j1 \<noteq> inactiveLimit" using d by simp
    have s1: "Mat33_solve33 (RevoluteJoint.m_mass j1)
        (Vec3 (Vec2_x (Vec2_subCombine
                 (Vec2_addCombine Vec2_zero 1 ?vB 1 (Vec2_crossNumVec wB1 (RevoluteJoint.m_rB j1)))
                 1 ?vA 1 (Vec2_crossNumVec wA1 (RevoluteJoint.m_rA j1))))
              (Vec2_y (Vec2_subCombine
                 (Vec2_addCombine Vec2_zero 1 ?vB 1 (Vec2_crossNumVec wB1 (RevoluteJoint.m_rB j1)))
                 1 ?vA 1 (Vec2_crossNumVec wA1 (RevoluteJoint.m_rA j1))))
              (wB1 - wA1)) = Some s"
      using s d by simp
    have r1: "Mat33_solve22 (RevoluteJoint.m_mass j1)
        (Vec2_combine (- 1)
           (Vec2_subCombine
              (Vec2_addCombine Vec2_zero 1 ?vB 1 (Vec2_crossNumVec wB1 (RevoluteJoint.m_rB j1)))
              1 ?vA 1 (Vec2_crossNumVec wA1 (RevoluteJoint.m_rA j1)))
           (Vec3_z (RevoluteJoint.m_impulse j1))
           (Vec2 (Vec3_x (Mat33_ez (RevoluteJoint.m_mass j1)))
                 (Vec3_y (Mat33_ez (RevoluteJoint.m_mass j1))))) = Some r"
      using r d by simp
    obtain j' vA' wA' vB' wB' where
      l: "RevoluteJoint_solveLimit j1 ?vA wA1 ?vB wB1 = Some (j', vA', wA', vB', wB')"
      and lm: "m_motorImpulse j' = m_motorImpulse j1"
      and li: "RevoluteJoint.m_impulse j' =
         (if m_limitState j1 = equalLimits
             \<or> (m_limitState j1 = atLowerLimit \<and> 0 \<le> Vec3_z (RevoluteJoint.m_impulse j1) - Vec3_z s)
             \<or> (m_limitState j1 = atUpperLimit \<and> Vec3_z (RevoluteJoint.m_impulse j1) - Vec3_z s \<le> 0)
          then Vec3_add (RevoluteJoint.m_impulse j1) (Vec3_neg s)
          else Vec3 (Vec3_x (RevoluteJoint.m_impulse j1) + Vec2_x r)
                    (Vec3_y (RevoluteJoint.m_impulse j1) + Vec2_y r) 0)"
      using RevoluteJoint_solveLimit_D [OF s1 r1 st] by blast
    have run: "RevoluteJoint_solveVelocityConstraints step this bodyA bodyB
        = Some (j', bodyA\<lparr>c_velocity := Velocity vA' wA'\<rparr>, bodyB\<lparr>c_velocity := Velocity vB' wB'\<rparr>)"
      using True d l by (simp add: RevoluteJoint_solveVelocityConstraints_def Let_def m)
    have imp: "RevoluteJoint.m_impulse j' =
         (if m_enableLimit this \<and> m_limitState this \<noteq> inactiveLimit
               \<and> RevoluteJoint.m_invIA this + RevoluteJoint.m_invIB this \<noteq> 0
          then (if m_limitState this = equalLimits
                   \<or> (m_limitState this = atLowerLimit
                        \<and> 0 \<le> Vec3_z (RevoluteJoint.m_impulse this) - Vec3_z s)
                   \<or> (m_limitState this = atUpperLimit
                        \<and> Vec3_z (RevoluteJoint.m_impulse this) - Vec3_z s \<le> 0)
                then Vec3_add (RevoluteJoint.m_impulse this) (Vec3_neg s)
                else Vec3 (Vec3_x (RevoluteJoint.m_impulse this) + Vec2_x r)
                          (Vec3_y (RevoluteJoint.m_impulse this) + Vec2_y r) 0)
          else Vec3 (Vec3_x (RevoluteJoint.m_impulse this) + Vec2_x p)
                    (Vec3_y (RevoluteJoint.m_impulse this) + Vec2_y p)
                    (Vec3_z (RevoluteJoint.m_impulse this)))"
      using li d True by simp
    have mot: "m_motorImpulse j' =
         (if m_enableMotor this \<and> m_limitState this \<noteq> equalLimits
               \<and> RevoluteJoint.m_invIA this + RevoluteJoint.m_invIB this \<noteq> 0
          then Math_clamp
                 (m_motorImpulse this
                    + (- m_motorMass this
                         * (Velocity_w (c_velocity bodyB) - Velocity_w (c_velocity bodyA)
                              - m_motorSpeed this)))
                 (- (dt step * m_maxMotorTorque this)) (dt step * m_maxMotorTorque this)
          else m_motorImpulse this)"
      using lm d by simp
    from run imp mot show ?thesis by blast
  next
    case False
    have p1: "Mat33_solve22 (RevoluteJoint.m_mass j1)
        (Vec2_neg
           (Vec2_subCombine
              (Vec2_addCombine Vec2_zero 1 ?vB 1 (Vec2_crossNumVec wB1 (RevoluteJoint.m_rB j1)))
              1 ?vA 1 (Vec2_crossNumVec wA1 (RevoluteJoint.m_rA j1)))) = Some p"
      using p d by simp
    obtain j' vA' wA' vB' wB' where
      l: "RevoluteJoint_solvePoint j1 ?vA wA1 ?vB wB1 = Some (j', vA', wA', vB', wB')"
      and lm: "m_motorImpulse j' = m_motorImpulse j1"
      and li: "RevoluteJoint.m_impulse j' =
          Vec3 (Vec3_x (RevoluteJoint.m_impulse j1) + Vec2_x p)
               (Vec3_y (RevoluteJoint.m_impulse j1) + Vec2_y p)
               (Vec3_z (RevoluteJoint.m_impulse j1))"
      using RevoluteJoint_solvePoint_D [OF p1] by blast
    have c: "\<not> (m_enableLimit j1 \<and> m_limitState j1 \<noteq> inactiveLimit
               \<and> RevoluteJoint.m_invIA this + RevoluteJoint.m_invIB this \<noteq> 0)"
      using False d by simp
    have run: "RevoluteJoint_solveVelocityConstraints step this bodyA bodyB
        = Some (j', bodyA\<lparr>c_velocity := Velocity vA' wA'\<rparr>, bodyB\<lparr>c_velocity := Velocity vB' wB'\<rparr>)"
      using c l by (auto simp add: RevoluteJoint_solveVelocityConstraints_def Let_def m)
    have imp: "RevoluteJoint.m_impulse j' =
         (if m_enableLimit this \<and> m_limitState this \<noteq> inactiveLimit
               \<and> RevoluteJoint.m_invIA this + RevoluteJoint.m_invIB this \<noteq> 0
          then (if m_limitState this = equalLimits
                   \<or> (m_limitState this = atLowerLimit
                        \<and> 0 \<le> Vec3_z (RevoluteJoint.m_impulse this) - Vec3_z s)
                   \<or> (m_limitState this = atUpperLimit
                        \<and> Vec3_z (RevoluteJoint.m_impulse this) - Vec3_z s \<le> 0)
                then Vec3_add (RevoluteJoint.m_impulse this) (Vec3_neg s)
                else Vec3 (Vec3_x (RevoluteJoint.m_impulse this) + Vec2_x r)
                          (Vec3_y (RevoluteJoint.m_impulse this) + Vec2_y r) 0)
          else Vec3 (Vec3_x (RevoluteJoint.m_impulse this) + Vec2_x p)
                    (Vec3_y (RevoluteJoint.m_impulse this) + Vec2_y p)
                    (Vec3_z (RevoluteJoint.m_impulse this)))"
      using li d False by auto
    have mot: "m_motorImpulse j' =
         (if m_enableMotor this \<and> m_limitState this \<noteq> equalLimits
               \<and> RevoluteJoint.m_invIA this + RevoluteJoint.m_invIB this \<noteq> 0
          then Math_clamp
                 (m_motorImpulse this
                    + (- m_motorMass this
                         * (Velocity_w (c_velocity bodyB) - Velocity_w (c_velocity bodyA)
                              - m_motorSpeed this)))
                 (- (dt step * m_maxMotorTorque this)) (dt step * m_maxMotorTorque this)
          else m_motorImpulse this)"
      using lm d by simp
    from run imp mot show ?thesis by blast
  qed
  then show ?thesis using s r p by blast
qed

theorem RevoluteJoint_velocity_systems_witness:
  "RevoluteJoint_solveMotor (example_step True) example_revolute_at_lower
      (Velocity_w (c_velocity (example_body (Vec2 0 0) 1 1)))
      (Velocity_w (c_velocity example_moving_body)) = (example_revolute_at_lower, 0, 1)
   \<and> (\<exists>j' a' b'. RevoluteJoint_solveVelocityConstraints (example_step True)
          example_revolute_at_lower (example_body (Vec2 0 0) 1 1) example_moving_body
            = Some (j', a', b')
        \<and> RevoluteJoint.m_impulse j' = Vec3 (- 1) 0 1 \<and> m_motorImpulse j' = 1)"
proof -
  have h: "RevoluteJoint_solveMotor (example_step True) example_revolute_at_lower
      (Velocity_w (c_velocity (example_body (Vec2 0 0) 1 1)))
      (Velocity_w (c_velocity example_moving_body)) = (example_revolute_at_lower, 0, 1)"
    by (simp add: RevoluteJoint_solveMotor_def example_defs2 Let_def)
  from RevoluteJoint_velocity_systems [OF h]
  show ?thesis
    using h
    by (auto simp add: Mat33_solve33_def Mat33_solve22_def Let_def recip_def
        example_defs2 vec_defs)
qed

theorem RevoluteJoint_velocity_systems_counterexample:
  "m_enableLimit example_revolute_at_lower
   \<and> m_limitState example_revolute_at_lower = atLowerLimit
   \<and> Mat33_solve33 (RevoluteJoint.m_mass example_revolute_at_lower) (Vec3 1 0 1)
        = Some (Vec3 1 0 1)
   \<and> Mat33_solve22 (RevoluteJoint.m_mass example_revolute_at_lower) (Vec2 (- 1) 0)
        = Some (Vec2 (- 1) 0)
   \<and> RevoluteJoint_solveVelocityConstraints (example_step True)
        example_revolute_at_lower (example_body (Vec2 0 0) 1 1) example_moving_body
      = Some (example_revolute_at_lower
                \<lparr>RevoluteJoint.m_impulse :=
                   Vec3_add (RevoluteJoint.m_impulse example_revolute_at_lower)
                     (Vec3_neg (Vec3 1 0 1))\<rparr>,
              (example_body (Vec2 0 0) 1 1)\<lparr>c_velocity := Velocity (Vec2 1 0) 1\<rparr>,
              example_moving_body)
   \<and> Vec3_add (RevoluteJoint.m_impulse example_revolute_at_lower) (Vec3_neg (Vec3 1 0 1))
        = Vec3 (- 1) 0 1"
  by (simp add: RevoluteJoint_solveVelocityConstraints_def RevoluteJoint_solveMotor_def
      RevoluteJoint_solveLimit_def RevoluteJoint_solvePoint_def Mat33_solve33_def
      Mat33_solve22_def example_defs2 vec_defs Let_def recip_def)

section \<open>Pulley joint: the assertion on the ratio\<close>

text \<open>
  C9. With assertion checks enabled, a pulley joint constructed from a definition that
  carries the ratio, with no \<open>ratio\<close> argument, fails the assertion whatever the ratio
  is, since the assertion reads the argument and not \<open>m_ratio\<close>; with the checks
  disabled the same construction succeeds with that ratio, and with the checks enabled
  a valid \<open>ratio\<close> argument passes.
\<close>

theorem PulleyJoint_new_asserts_without_ratio_argument:
  "PulleyJoint_new True st
      \<lparr>groundAnchorA = gA, groundAnchorB = gB,
       PulleyJointDef.localAnchorA = lA, PulleyJointDef.localAnchorB = lB,
       lengthA = Some la, lengthB = Some lb, ratio = Some r\<rparr>
      bodyA bodyB groundA groundB anchorA anchorB None
    = Inl AssertionError
   \<and> (\<exists>j. PulleyJoint_new False st
      \<lparr>groundAnchorA = gA, groundAnchorB = gB,
       PulleyJointDef.localAnchorA = lA, PulleyJointDef.localAnchorB = lB,
       lengthA = Some la, lengthB = Some lb, ratio = Some r\<rparr>
      bodyA bodyB groundA groundB anchorA anchorB None = Inr j \<and> m_ratio j = r)
   \<and> (\<exists>j. PulleyJoint_new True st
      \<lparr>groundAnchorA = gA, groundAnchorB = gB,
       PulleyJointDef.localAnchorA = lA, PulleyJointDef.localAnchorB = lB,
       lengthA = Some la, lengthB = Some lb, ratio = None\<rparr>
      bodyA bodyB groundA groundB anchorA anchorB (Some (EPSILON st + 1)) = Inr j
        \<and> m_ratio j = EPSILON st + 1)"
  by (simp add: PulleyJoint_new_def assert_def Let_def)

end
